theory Spec2Isabelle
  imports Main "HOL-Library.Sublist" "HOL-Library.Word"
begin

section \<open>VozNote: recording-to-note pipeline, note store and search\<close>

text \<open>
  A shallow embedding of the three application variants of the repository
  (\<^verbatim>\<open>src/App.tsx\<close>, \<^verbatim>\<open>src/voznote-ai/App.tsx\<close>, \<^verbatim>\<open>src/voznote-ai (1)/App.tsx\<close>),
  of \<^verbatim>\<open>src/types.ts\<close> and of the two service modules.  React state and refs become the
  fields of one record that every action takes and returns; a thrown exception becomes the
  left summand of a sum type; the browser and the AI service are parameters.
\<close>

subsection \<open>JavaScript built-ins used by the code\<close>

text \<open>Truthiness of a string: only the empty string is falsy.\<close>

definition truthy :: "string \<Rightarrow> bool" where
  "truthy s = (s \<noteq> [])"

text \<open>\<^verbatim>\<open>x || d\<close> for a possibly undefined string \<open>x\<close>: \<open>undefined\<close> and \<open>""\<close> are falsy.\<close>

definition or_else :: "string option \<Rightarrow> string \<Rightarrow> string" where
  "or_else x d = (case x of None \<Rightarrow> d | Some s \<Rightarrow> if truthy s then s else d)"

text \<open>\<^verbatim>\<open>Number.prototype.toString()\<close> on a non-negative integer: its decimal digits.\<close>

definition digit_char :: "nat \<Rightarrow> char" where
  "digit_char d = char_of (48 + d)"

function toString :: "nat \<Rightarrow> string" where
  "toString n = (if n < 10 then [digit_char n] else toString (n div 10) @ [digit_char (n mod 10)])"
  by pat_completeness auto
termination
  by (relation "measure (\<lambda>n. n)") auto

declare toString.simps [simp del]

text \<open>\<^verbatim>\<open>String.prototype.padStart(n, c)\<close> with a one-character filler.\<close>

definition padStart :: "nat \<Rightarrow> char \<Rightarrow> string \<Rightarrow> string" where
  "padStart n c s = replicate (n - length s) c @ s"

text \<open>\<^verbatim>\<open>String.prototype.includes\<close>: does \<open>q\<close> occur in \<open>s\<close> at some position?\<close>

fun includes_str :: "'a list \<Rightarrow> 'a list \<Rightarrow> bool" where
  "includes_str [] q = (q = [])"
| "includes_str (c # s) q = (take (length q) (c # s) = q \<or> includes_str s q)"

text \<open>
  \<^verbatim>\<open>String.prototype.trim\<close> removes white space and line terminators from both ends.  Which
  characters count as white space is the parameter \<open>ws\<close>.
\<close>

definition trim :: "(char \<Rightarrow> bool) \<Rightarrow> string \<Rightarrow> string" where
  "trim ws s = rev (dropWhile ws (rev (dropWhile ws s)))"

text \<open>The white space of the ASCII range: TAB, LF, VT, FF, CR and SPACE.\<close>

definition ascii_ws :: "char \<Rightarrow> bool" where
  "ascii_ws c = (of_char c \<in> {9, 10, 11, 12, 13, 32 :: nat})"

text \<open>Lower-casing of the ASCII letters, an instance of \<^verbatim>\<open>toLowerCase\<close> on ASCII text.\<close>

definition ascii_lower_char :: "char \<Rightarrow> char" where
  "ascii_lower_char c =
     (let n = of_char c :: nat in if 65 \<le> n \<and> n \<le> 90 then char_of (n + 32) else c)"

definition ascii_lower :: "string \<Rightarrow> string" where
  "ascii_lower s = map ascii_lower_char s"

text \<open>Reading a decimal numeral back, to state what a formatted field denotes.\<close>

definition is_digit :: "char \<Rightarrow> bool" where
  "is_digit c = (48 \<le> (of_char c :: nat) \<and> (of_char c :: nat) \<le> 57)"

definition decimal :: "string \<Rightarrow> nat" where
  "decimal s = foldl (\<lambda>acc c. 10 * acc + (of_char c - 48)) 0 s"

subsection \<open>\<^verbatim>\<open>types.ts\<close>\<close>

datatype AppView = LIST | RECORD | EDIT

record Note =
  id_note :: string
  title :: string
  date :: string
  durationFormatted :: string
  transcription :: string
  summary :: string
  tags :: "string list"

datatype ProcessingStatus = IDLE | TRANSCRIBING | SUMMARIZING | COMPLETED | ERROR

subsection \<open>\<^verbatim>\<open>formatTime\<close> (identical in the three variants)\<close>

definition formatTime :: "nat \<Rightarrow> string" where
  "formatTime seconds =
     (let mins = seconds div 60;
          secs = seconds mod 60
      in padStart 2 (CHR ''0'') (toString mins) @ '':'' @ padStart 2 (CHR ''0'') (toString secs))"

subsection \<open>Errors, blobs and the AI service\<close>

text \<open>
  A thrown value: \<^verbatim>\<open>new Error(message)\<close>, or a rejection that carries no \<^verbatim>\<open>message\<close>
  (the \<^verbatim>\<open>FileReader\<close> error event passed to \<^verbatim>\<open>reject\<close>).
\<close>

datatype js_error = Error string | Rejected

fun message :: "js_error \<Rightarrow> string option" where
  "message (Error m) = Some m"
| "message Rejected = None"

type_synonym byte = "8 word"

record Blob =
  blob_bytes :: "byte list"
  blob_type :: string

definition blob_size :: "Blob \<Rightarrow> nat" where
  "blob_size b = length (blob_bytes b)"

text \<open>\<^verbatim>\<open>new Blob(parts, { type })\<close>: the parts' bytes, one after the other.\<close>

definition new_Blob :: "Blob list \<Rightarrow> string \<Rightarrow> Blob" where
  "new_Blob parts type = \<lparr>blob_bytes = concat (map blob_bytes parts), blob_type = type\<rparr>"

text \<open>
  The two prompts are long literal texts; each is a constructor here, the second with the
  transcript that the template interpolates.
\<close>

datatype Part = InlineData string "string option" | TranscribePrompt | SummarizePrompt string

record GenerateContentResponse =
  response_text :: "string option"

text \<open>
  What the service modules and the pipeline reach outside themselves:
  \<^verbatim>\<open>process.env.API_KEY\<close>, the \<^verbatim>\<open>FileReader\<close>, \<^verbatim>\<open>ai.models.generateContent\<close> of the model
  \<^verbatim>\<open>gemini-2.5-flash\<close>, and the clock with its two \<^verbatim>\<open>pt-BR\<close> renderings.
\<close>

record Env =
  API_KEY :: "string option"
  readAsDataURL :: "Blob \<Rightarrow> js_error + string"
  generateContent :: "Part list \<Rightarrow> js_error + GenerateContentResponse"
  Date_now :: nat
  toLocaleTimeString :: string
  toLocaleDateString :: string

text \<open>\<^verbatim>\<open>base64String.split(',')[1]\<close>: the text between the first and the second comma.\<close>

definition split_comma_1 :: "string \<Rightarrow> string option" where
  "split_comma_1 s =
     (if CHR '','' \<in> set s
      then Some (takeWhile (\<lambda>c. c \<noteq> CHR '','') (tl (dropWhile (\<lambda>c. c \<noteq> CHR '','') s)))
      else None)"

definition blobToBase64 :: "Env \<Rightarrow> Blob \<Rightarrow> js_error + string option" where
  "blobToBase64 env blob =
     (case readAsDataURL env blob of
        Inl e \<Rightarrow> Inl e
      | Inr base64String \<Rightarrow> Inr (split_comma_1 base64String))"

text \<open>The messages, with their non-ASCII letters as UTF-8 bytes.\<close>

definition msg_key_env :: string where
  "msg_key_env = ''Chave de API n'' @ [CHR 0xC3, CHR 0xA3] @ ''o configurada no ambiente.''"

definition msg_key :: string where
  "msg_key = ''Chave de API n'' @ [CHR 0xC3, CHR 0xA3] @ ''o configurada.''"

definition msg_transcription :: string where
  "msg_transcription =
     ''Falha na transcri'' @ [CHR 0xC3, CHR 0xA7, CHR 0xC3, CHR 0xA3] @ ''o. Verifique se o formato de ''
     @ [CHR 0xC3, CHR 0xA1] @ ''udio '' @ [CHR 0xC3, CHR 0xA9] @ '' compat'' @ [CHR 0xC3, CHR 0xAD]
     @ ''vel ou se a chave de API est'' @ [CHR 0xC3, CHR 0xA1] @ '' v'' @ [CHR 0xC3, CHR 0xA1] @ ''lida.''"

definition msg_transcription_gemini :: string where
  "msg_transcription_gemini =
     ''Falha na transcri'' @ [CHR 0xC3, CHR 0xA7, CHR 0xC3, CHR 0xA3] @ ''o do ''
     @ [CHR 0xC3, CHR 0xA1] @ ''udio.''"

definition msg_summary :: string where
  "msg_summary = ''Falha ao gerar o resumo.''"

definition msg_key_app :: string where
  "msg_key_app =
     ''API_KEY n'' @ [CHR 0xC3, CHR 0xA3] @ ''o encontrada. Verifique as configura''
     @ [CHR 0xC3, CHR 0xA7, CHR 0xC3, CHR 0xB5] @ ''es na Vercel.''"

definition key_present :: "Env \<Rightarrow> bool" where
  "key_present env = (case API_KEY env of None \<Rightarrow> False | Some k \<Rightarrow> truthy k)"

text \<open>\<^verbatim>\<open>services/ai.ts\<close>: the body of each \<^verbatim>\<open>try\<close>, then the function with its \<^verbatim>\<open>catch\<close>.\<close>

definition transcribeAudio_try :: "Env \<Rightarrow> Blob \<Rightarrow> js_error + string" where
  "transcribeAudio_try env audioBlob =
     (if \<not> key_present env then Inl (Error msg_key_env)
      else case blobToBase64 env audioBlob of
        Inl e \<Rightarrow> Inl e
      | Inr base64Data \<Rightarrow>
          (let mimeType = or_else (Some (blob_type audioBlob)) ''audio/webm''
           in case generateContent env [InlineData mimeType base64Data, TranscribePrompt] of
                Inl e \<Rightarrow> Inl e
              | Inr response \<Rightarrow> Inr (or_else (response_text response) '''')))"

definition transcribeAudio :: "Env \<Rightarrow> Blob \<Rightarrow> js_error + string" where
  "transcribeAudio env audioBlob =
     (case transcribeAudio_try env audioBlob of
        Inr r \<Rightarrow> Inr r
      | Inl error \<Rightarrow>
          (if (case message error of None \<Rightarrow> False | Some m \<Rightarrow> includes_str m ''API_KEY'')
           then Inl error
           else Inl (Error msg_transcription)))"

definition summarizeText_try :: "Env \<Rightarrow> string \<Rightarrow> js_error + string" where
  "summarizeText_try env txt =
     (if \<not> key_present env then Inl (Error msg_key)
      else case generateContent env [SummarizePrompt txt] of
        Inl e \<Rightarrow> Inl e
      | Inr response \<Rightarrow> Inr (or_else (response_text response) ''''))"

definition summarizeText :: "Env \<Rightarrow> string \<Rightarrow> js_error + string" where
  "summarizeText env txt =
     (case summarizeText_try env txt of
        Inr r \<Rightarrow> Inr r
      | Inl error \<Rightarrow> Inl (Error msg_summary))"

text \<open>\<^verbatim>\<open>voznote-ai/services/geminiService.ts\<close>: no check of the key, one message per function.\<close>

definition transcribeAudio_gemini :: "Env \<Rightarrow> Blob \<Rightarrow> js_error + string" where
  "transcribeAudio_gemini env audioBlob =
     (case (case blobToBase64 env audioBlob of
              Inl e \<Rightarrow> Inl e
            | Inr base64Data \<Rightarrow>
                (case generateContent env
                        [InlineData (or_else (Some (blob_type audioBlob)) ''audio/webm'') base64Data,
                         TranscribePrompt] of
                   Inl e \<Rightarrow> Inl e
                 | Inr response \<Rightarrow> Inr (or_else (response_text response) ''''))) of
        Inr r \<Rightarrow> Inr r
      | Inl error \<Rightarrow> Inl (Error msg_transcription_gemini))"

definition summarizeText_gemini :: "Env \<Rightarrow> string \<Rightarrow> js_error + string" where
  "summarizeText_gemini env txt =
     (case (case generateContent env [SummarizePrompt txt] of
              Inl e \<Rightarrow> Inl e
            | Inr response \<Rightarrow> Inr (or_else (response_text response) '''')) of
        Inr r \<Rightarrow> Inr r
      | Inl error \<Rightarrow> Inl (Error msg_summary))"

subsection \<open>Application state (\<^verbatim>\<open>App.tsx\<close>)\<close>

text \<open>
  The recorder object behind \<^verbatim>\<open>mediaRecorderRef\<close>: the \<^verbatim>\<open>mimeType\<close> option it was built
  with, whether it is recording, whether the tracks of its stream are still live (the
  microphone is held), and whether an \<^verbatim>\<open>onstop\<close> handler has been assigned.
\<close>

record MediaRecorder =
  options_mimeType :: "string option"
  recording :: bool
  tracks_live :: bool
  onstop_set :: bool

text \<open>What \<^verbatim>\<open>startRecording\<close> asks of the browser.\<close>

record Browser =
  getUserMedia :: "js_error + unit"
  isTypeSupported :: "string \<Rightarrow> bool"

text \<open>The calls of \<^verbatim>\<open>alert\<close>; the fixed texts are constructors, interpolated parts arguments.\<close>

datatype Alert =
    MicrophoneAlert
  | DurationAlert
  | ProcessingAlert string
  | PermissionAlert
  | ErrorAlert "string option"

text \<open>
  The component's \<^verbatim>\<open>useState\<close> cells and \<^verbatim>\<open>useRef\<close> cells, the interval timers of the window
  (\<open>liveIntervals\<close>, \<open>nextTimerId\<close>), and two logs of what the component did:
  every value passed to \<^verbatim>\<open>setProcessingStatus\<close> and every \<^verbatim>\<open>alert\<close>, oldest first.
\<close>

record App =
  view :: AppView
  notes_st :: "Note list"
  activeNote :: "Note option"
  tagInput :: string
  isRecording :: bool
  recordingDuration :: nat
  processingStatus :: ProcessingStatus
  mediaRecorderRef :: "MediaRecorder option"
  audioChunksRef :: "Blob list"
  timerRef :: "nat option"
  mimeTypeRef :: string
  liveIntervals :: "nat list"
  nextTimerId :: nat
  statusTrace :: "ProcessingStatus list"
  alerts :: "Alert list"

definition initialApp :: App where
  "initialApp =
     \<lparr>view = LIST, notes_st = [], activeNote = None, tagInput = '''', isRecording = False,
      recordingDuration = 0, processingStatus = IDLE, mediaRecorderRef = None,
      audioChunksRef = [], timerRef = None, mimeTypeRef = '''', liveIntervals = [],
      nextTimerId = 1, statusTrace = [], alerts = []\<rparr>"

definition setProcessingStatus :: "ProcessingStatus \<Rightarrow> App \<Rightarrow> App" where
  "setProcessingStatus st s = s\<lparr>processingStatus := st, statusTrace := statusTrace s @ [st]\<rparr>"

definition alert :: "Alert \<Rightarrow> App \<Rightarrow> App" where
  "alert a s = s\<lparr>alerts := alerts s @ [a]\<rparr>"

text \<open>\<^verbatim>\<open>window.setInterval\<close> hands out a fresh positive id; \<^verbatim>\<open>clearInterval\<close> retires one.\<close>

definition setInterval :: "App \<Rightarrow> nat \<times> App" where
  "setInterval s =
     (nextTimerId s, s\<lparr>liveIntervals := liveIntervals s @ [nextTimerId s],
                       nextTimerId := Suc (nextTimerId s)\<rparr>)"

definition clearInterval :: "nat \<Rightarrow> App \<Rightarrow> App" where
  "clearInterval t s = s\<lparr>liveIntervals := removeAll t (liveIntervals s)\<rparr>"

subsection \<open>Capture (\<^verbatim>\<open>src/App.tsx\<close>)\<close>

definition mimeTypes :: "string list" where
  "mimeTypes = [''audio/webm;codecs=opus'', ''audio/webm'', ''audio/mp4'', ''audio/aac'', ''audio/ogg'']"

definition getSupportedMimeType :: "Browser \<Rightarrow> string" where
  "getSupportedMimeType b =
     (case find (isTypeSupported b) mimeTypes of Some type \<Rightarrow> type | None \<Rightarrow> '''')"

text \<open>
  \<^verbatim>\<open>startRecording\<close>.  There is no test of the current state before the device is asked
  for: the body of the \<^verbatim>\<open>try\<close> runs whenever \<^verbatim>\<open>getUserMedia\<close> resolves.
\<close>

definition startRecording :: "Browser \<Rightarrow> App \<Rightarrow> App" where
  "startRecording b s =
     (case getUserMedia b of
        Inl err \<Rightarrow> alert MicrophoneAlert s
      | Inr stream \<Rightarrow>
          (let mimeType = getSupportedMimeType b;
               mediaRecorder =
                 \<lparr>options_mimeType = (if truthy mimeType then Some mimeType else None),
                  recording = True, tracks_live = True, onstop_set = False\<rparr>;
               s1 = s\<lparr>mimeTypeRef := mimeType, mediaRecorderRef := Some mediaRecorder,
                      audioChunksRef := [], isRecording := True, recordingDuration := 0,
                      view := RECORD\<rparr>;
               (t, s2) = setInterval s1
           in s2\<lparr>timerRef := Some t\<rparr>))"

text \<open>The \<^verbatim>\<open>ondataavailable\<close> handler installed by \<^verbatim>\<open>startRecording\<close>.\<close>

definition ondataavailable :: "Blob \<Rightarrow> App \<Rightarrow> App" where
  "ondataavailable data s =
     (if blob_size data > 0 then s\<lparr>audioChunksRef := audioChunksRef s @ [data]\<rparr> else s)"

text \<open>One firing of the interval callback: the counter, and the notice at sixty minutes.\<close>

definition tick :: "App \<Rightarrow> App" where
  "tick s =
     (let next = recordingDuration s + 1;
          s1 = (if next = 3600 then alert DurationAlert s else s)
      in s1\<lparr>recordingDuration := next\<rparr>)"

text \<open>\<^verbatim>\<open>stopRecording\<close>, up to the assignment of the \<^verbatim>\<open>onstop\<close> handler.\<close>

definition stopRecording :: "App \<Rightarrow> App" where
  "stopRecording s =
     (case mediaRecorderRef s of
        None \<Rightarrow> s
      | Some r \<Rightarrow>
          if isRecording s then
            (let s1 = s\<lparr>mediaRecorderRef := Some (r\<lparr>recording := False, onstop_set := True\<rparr>),
                        isRecording := False\<rparr>
             in case timerRef s1 of
                  None \<Rightarrow> s1
                | Some t \<Rightarrow> if t \<noteq> 0 then (clearInterval t s1)\<lparr>timerRef := None\<rparr> else s1)
          else s)"

text \<open>The blob that the \<^verbatim>\<open>onstop\<close> handler builds from the chunks.\<close>

definition onstop_blob :: "App \<Rightarrow> Blob" where
  "onstop_blob s =
     (let type = or_else (Some (mimeTypeRef s)) ''audio/webm''
      in new_Blob (audioChunksRef s) type)"

text \<open>\<^verbatim>\<open>stream.getTracks().forEach(track => track.stop())\<close> on the recorder in the ref.\<close>

definition stopTracks :: "App \<Rightarrow> App" where
  "stopTracks s = s\<lparr>mediaRecorderRef := map_option (\<lambda>r. r\<lparr>tracks_live := False\<rparr>) (mediaRecorderRef s)\<rparr>"

subsection \<open>Processing (\<^verbatim>\<open>src/App.tsx\<close>)\<close>

definition draftNote :: "string \<Rightarrow> Env \<Rightarrow> App \<Rightarrow> string \<Rightarrow> string \<Rightarrow> Note" where
  "draftNote label env s transcription' summary' =
     \<lparr>id_note = toString (Date_now env),
      title = label @ toLocaleTimeString env,
      date = toLocaleDateString env,
      durationFormatted = formatTime (recordingDuration s),
      transcription = transcription',
      summary = summary',
      tags = []\<rparr>"

text \<open>
  The title prefixes: \<^verbatim>\<open>Gravacao \<close> (with c-cedilla and a-tilde, here as UTF-8 bytes) in
  \<^verbatim>\<open>src/App.tsx\<close>, and \<^verbatim>\<open>Nota de \<close> in \<^verbatim>\<open>voznote-ai/App.tsx\<close>.
\<close>

definition label_gravacao :: string where
  "label_gravacao = ''Grava'' @ [CHR 0xC3, CHR 0xA7, CHR 0xC3, CHR 0xA3] @ ''o ''"

definition label_nota :: string where
  "label_nota = ''Nota de ''"

text \<open>
  The body of the \<^verbatim>\<open>try\<close> in \<^verbatim>\<open>processAudio\<close>.  A throw leaves with the error and the state
  reached so far.
\<close>

definition processAudio_try :: "Env \<Rightarrow> Blob \<Rightarrow> App \<Rightarrow> (js_error \<times> App) + App" where
  "processAudio_try env blob s =
     (if \<not> key_present env then Inl (Error msg_key_app, s)
      else case transcribeAudio env blob of
        Inl e \<Rightarrow> Inl (e, s)
      | Inr transcription' \<Rightarrow>
          (let s1 = setProcessingStatus SUMMARIZING s
           in case summarizeText env transcription' of
                Inl e \<Rightarrow> Inl (e, s1)
              | Inr summary' \<Rightarrow>
                  (let s2 = setProcessingStatus COMPLETED s1;
                       newNote = draftNote label_gravacao env s2 transcription' summary'
                   in Inr (s2\<lparr>activeNote := Some newNote, view := EDIT\<rparr>))))"

definition processAudio_catch :: "js_error \<Rightarrow> App \<Rightarrow> App" where
  "processAudio_catch error s =
     (let s1 = setProcessingStatus ERROR s;
          msg = or_else (message error) ''Ocorreu um erro desconhecido'';
          s2 = alert (ProcessingAlert msg) s1
      in s2\<lparr>view := LIST\<rparr>)"

definition processAudio :: "Env \<Rightarrow> Blob \<Rightarrow> App \<Rightarrow> App" where
  "processAudio env blob s =
     (let s1 = setProcessingStatus TRANSCRIBING s;
          s2 = (case processAudio_try env blob s1 of
                  Inr s' \<Rightarrow> s'
                | Inl (error, s') \<Rightarrow> processAudio_catch error s')
      in setProcessingStatus IDLE s2)"

text \<open>The \<^verbatim>\<open>onstop\<close> handler, and the recorder's stop event, which runs it once it is assigned.\<close>

definition onstop :: "Env \<Rightarrow> App \<Rightarrow> App" where
  "onstop env s =
     (let audioBlob = onstop_blob s;
          s1 = stopTracks s
      in processAudio env audioBlob s1)"

definition stop_event :: "Env \<Rightarrow> App \<Rightarrow> App" where
  "stop_event env s =
     (case mediaRecorderRef s of
        None \<Rightarrow> s
      | Some r \<Rightarrow> if onstop_set r then onstop env s else s)"

subsection \<open>Capture and processing (\<^verbatim>\<open>src/voznote-ai/App.tsx\<close>)\<close>

definition startRecording_v2 :: "Browser \<Rightarrow> App \<Rightarrow> App" where
  "startRecording_v2 b s =
     (case getUserMedia b of
        Inl err \<Rightarrow> alert PermissionAlert s
      | Inr stream \<Rightarrow>
          (let mediaRecorder =
                 \<lparr>options_mimeType = None, recording = True, tracks_live = True,
                  onstop_set = False\<rparr>;
               s1 = s\<lparr>mediaRecorderRef := Some mediaRecorder, audioChunksRef := [],
                      isRecording := True, recordingDuration := 0, view := RECORD\<rparr>;
               (t, s2) = setInterval s1
           in s2\<lparr>timerRef := Some t\<rparr>))"

definition stopRecording_v2 :: "App \<Rightarrow> App" where
  "stopRecording_v2 s =
     (case mediaRecorderRef s of
        None \<Rightarrow> s
      | Some r \<Rightarrow>
          if isRecording s then
            (let s1 = s\<lparr>mediaRecorderRef := Some (r\<lparr>recording := False, onstop_set := True\<rparr>),
                        isRecording := False\<rparr>
             in case timerRef s1 of
                  None \<Rightarrow> s1
                | Some t \<Rightarrow> if t \<noteq> 0 then clearInterval t s1 else s1)
          else s)"

definition onstop_blob_v2 :: "App \<Rightarrow> Blob" where
  "onstop_blob_v2 s = new_Blob (audioChunksRef s) ''audio/webm''"

text \<open>
  \<^verbatim>\<open>processAudio\<close> of this variant, over the two service functions it imports.  It writes
  neither \<^verbatim>\<open>COMPLETED\<close> nor \<^verbatim>\<open>ERROR\<close>.
\<close>

definition processAudio_v2 ::
  "(Blob \<Rightarrow> js_error + string) \<Rightarrow> (string \<Rightarrow> js_error + string) \<Rightarrow> Env \<Rightarrow> Blob \<Rightarrow> App \<Rightarrow> App"
where
  "processAudio_v2 transcribe summarize env blob s =
     (let s1 = setProcessingStatus TRANSCRIBING s;
          s2 = (case transcribe blob of
                  Inl error \<Rightarrow> (alert (ErrorAlert (message error)) s1)\<lparr>view := LIST\<rparr>
                | Inr transcription' \<Rightarrow>
                    (let s1' = setProcessingStatus SUMMARIZING s1
                     in case summarize transcription' of
                          Inl error \<Rightarrow> (alert (ErrorAlert (message error)) s1')\<lparr>view := LIST\<rparr>
                        | Inr summary' \<Rightarrow>
                            (let newNote = draftNote label_nota env s1' transcription' summary'
                             in s1'\<lparr>activeNote := Some newNote, view := EDIT\<rparr>)))
      in setProcessingStatus IDLE s2)"

definition onstop_v2 ::
  "(Blob \<Rightarrow> js_error + string) \<Rightarrow> (string \<Rightarrow> js_error + string) \<Rightarrow> Env \<Rightarrow> App \<Rightarrow> App"
where
  "onstop_v2 transcribe summarize env s =
     (let audioBlob = onstop_blob_v2 s;
          s1 = stopTracks s
      in processAudio_v2 transcribe summarize env audioBlob s1)"

text \<open>The stop event in \<^verbatim>\<open>voznote-ai/App.tsx\<close>.\<close>

definition stop_event_v2 ::
  "(Blob \<Rightarrow> js_error + string) \<Rightarrow> (string \<Rightarrow> js_error + string) \<Rightarrow> Env \<Rightarrow> App \<Rightarrow> App"
where
  "stop_event_v2 transcribe summarize env s =
     (case mediaRecorderRef s of
        None \<Rightarrow> s
      | Some r \<Rightarrow> if onstop_set r then onstop_v2 transcribe summarize env s else s)"

subsection \<open>The note store\<close>

text \<open>The function that \<^verbatim>\<open>saveNote\<close> passes to \<^verbatim>\<open>setNotes\<close>, and \<^verbatim>\<open>saveNote\<close> itself.\<close>

definition saveNote_update :: "Note \<Rightarrow> Note list \<Rightarrow> Note list" where
  "saveNote_update activeNote' prev =
     (case find (\<lambda>n. id_note n = id_note activeNote') prev of
        Some exists \<Rightarrow> map (\<lambda>n. if id_note n = id_note activeNote' then activeNote' else n) prev
      | None \<Rightarrow> activeNote' # prev)"

definition saveNote :: "App \<Rightarrow> App" where
  "saveNote s =
     (case activeNote s of
        None \<Rightarrow> s
      | Some a \<Rightarrow> s\<lparr>notes_st := saveNote_update a (notes_st s), view := LIST\<rparr>)"

text \<open>
  The load effect.  \<^verbatim>\<open>JSON.parse\<close> is the parameter \<open>parse\<close>; it throws on text that is not
  JSON.  \<^verbatim>\<open>src/App.tsx\<close> wraps the call in \<^verbatim>\<open>try\<close>/\<^verbatim>\<open>catch\<close>; the two \<^verbatim>\<open>voznote-ai\<close> variants
  do not.
\<close>

definition loadNotes :: "(string \<Rightarrow> js_error + Note list) \<Rightarrow> string option \<Rightarrow> App \<Rightarrow> js_error + App" where
  "loadNotes parse saved s =
     (case saved of
        None \<Rightarrow> Inr s
      | Some str \<Rightarrow>
          if truthy str then
            (case parse str of
               Inr ns \<Rightarrow> Inr (s\<lparr>notes_st := ns\<rparr>)
             | Inl e \<Rightarrow> Inr s)
          else Inr s)"

definition loadNotes_v2 :: "(string \<Rightarrow> js_error + Note list) \<Rightarrow> string option \<Rightarrow> App \<Rightarrow> js_error + App" where
  "loadNotes_v2 parse saved s =
     (case saved of
        None \<Rightarrow> Inr s
      | Some str \<Rightarrow>
          if truthy str then
            (case parse str of
               Inr ns \<Rightarrow> Inr (s\<lparr>notes_st := ns\<rparr>)
             | Inl e \<Rightarrow> Inl e)
          else Inr s)"

subsection \<open>Tags (\<^verbatim>\<open>src/App.tsx\<close>)\<close>

definition addTag :: "(char \<Rightarrow> bool) \<Rightarrow> App \<Rightarrow> App" where
  "addTag ws s =
     (case activeNote s of
        None \<Rightarrow> s
      | Some a \<Rightarrow>
          if \<not> truthy (trim ws (tagInput s)) then s
          else
            (let currentTags = tags a;
                 newTag = trim ws (tagInput s);
                 s1 = (if newTag \<notin> set currentTags
                       then s\<lparr>activeNote := Some (a\<lparr>tags := currentTags @ [newTag]\<rparr>)\<rparr>
                       else s)
             in s1\<lparr>tagInput := ''''\<rparr>))"

definition removeTag :: "string \<Rightarrow> App \<Rightarrow> App" where
  "removeTag tagToRemove s =
     (case activeNote s of
        None \<Rightarrow> s
      | Some a \<Rightarrow> s\<lparr>activeNote := Some (a\<lparr>tags := filter (\<lambda>t. t \<noteq> tagToRemove) (tags a)\<rparr>)\<rparr>)"

subsection \<open>Search\<close>

text \<open>
  \<^verbatim>\<open>filteredNotes\<close> of \<^verbatim>\<open>voznote-ai/App.tsx\<close> and of \<^verbatim>\<open>voznote-ai (1)/App.tsx\<close>, whose notes
  carry one more field.  \<^verbatim>\<open>String.prototype.toLowerCase\<close> is the parameter.
\<close>

definition filteredNotes :: "(string \<Rightarrow> string) \<Rightarrow> string \<Rightarrow> 'a Note_scheme list \<Rightarrow> 'a Note_scheme list" where
  "filteredNotes toLowerCase searchQuery ns =
     filter (\<lambda>n. includes_str (toLowerCase (title n)) (toLowerCase searchQuery) \<or>
                 includes_str (toLowerCase (summary n)) (toLowerCase searchQuery) \<or>
                 list_ex (\<lambda>t. includes_str (toLowerCase t) (toLowerCase searchQuery)) (tags n)) ns"

record NoteAudio = Note +
  audioUrl :: "string option"

definition filteredNotes_v3 :: "(string \<Rightarrow> string) \<Rightarrow> string \<Rightarrow> NoteAudio list \<Rightarrow> NoteAudio list" where
  "filteredNotes_v3 toLowerCase searchQuery ns =
     filter (\<lambda>n. includes_str (toLowerCase (title n)) (toLowerCase searchQuery) \<or>
                 includes_str (toLowerCase (summary n)) (toLowerCase searchQuery)) ns"

subsection \<open>The specification's status machine and example environments\<close>

text \<open>
  The six statuses and the transitions as the specification words them, for comparison with
  the statuses that the code writes.
\<close>

datatype spec_status =
  Spec_Idle | Spec_Capturing | Spec_Transcribing | Spec_Summarizing | Spec_Completed | Spec_Error

definition spec_step :: "spec_status \<Rightarrow> spec_status \<Rightarrow> bool" where
  "spec_step a b =
     ((a, b) \<in> set [(Spec_Idle, Spec_Capturing), (Spec_Capturing, Spec_Transcribing),
                      (Spec_Transcribing, Spec_Summarizing), (Spec_Summarizing, Spec_Completed),
                      (Spec_Completed, Spec_Idle), (Spec_Capturing, Spec_Error),
                      (Spec_Transcribing, Spec_Error), (Spec_Summarizing, Spec_Error),
                      (Spec_Error, Spec_Idle)])"

fun status_of :: "ProcessingStatus \<Rightarrow> spec_status" where
  "status_of IDLE = Spec_Idle"
| "status_of TRANSCRIBING = Spec_Transcribing"
| "status_of SUMMARIZING = Spec_Summarizing"
| "status_of COMPLETED = Spec_Completed"
| "status_of ERROR = Spec_Error"

text \<open>The specification's reading of a match: the lower-cased query occurs in the lower-cased field.\<close>

definition spec_contains_ci :: "(string \<Rightarrow> string) \<Rightarrow> string \<Rightarrow> string \<Rightarrow> bool" where
  "spec_contains_ci lower field query = sublist (lower query) (lower field)"

text \<open>A browser that grants the microphone, and a service that answers every call.\<close>

definition browser_ok :: Browser where
  "browser_ok = \<lparr>getUserMedia = Inr (), isTypeSupported = (\<lambda>t. t = ''audio/webm'')\<rparr>"

definition env_ok :: Env where
  "env_ok =
     \<lparr>API_KEY = Some ''key'',
      readAsDataURL = (\<lambda>b. Inr ''data:audio/webm;base64,AAAA''),
      generateContent =
        (\<lambda>parts. case parts of
                    [SummarizePrompt t] \<Rightarrow> Inr \<lparr>response_text = Some ''Summary: hello''\<rparr>
                  | _ \<Rightarrow> Inr \<lparr>response_text = Some ''hello world''\<rparr>),
      Date_now = 1700000000000,
      toLocaleTimeString = ''10:30'',
      toLocaleDateString = ''01/11/2026''\<rparr>"

text \<open>A service whose responses carry no text.\<close>

definition env_no_text :: Env where
  "env_no_text = env_ok\<lparr>generateContent := (\<lambda>parts. Inr \<lparr>response_text = None\<rparr>)\<rparr>"

text \<open>A service whose every call fails.\<close>

definition env_down :: Env where
  "env_down = env_ok\<lparr>generateContent := (\<lambda>parts. Inl (Error ''503''))\<rparr>"

definition chunk :: "byte list \<Rightarrow> Blob" where
  "chunk bs = \<lparr>blob_bytes = bs, blob_type = ''audio/webm''\<rparr>"

definition example_note :: "string \<Rightarrow> string \<Rightarrow> string list \<Rightarrow> Note" where
  "example_note i t tgs =
     \<lparr>id_note = i, title = t, date = ''01/11/2026'', durationFormatted = ''00:05'',
      transcription = '''', summary = '''', tags = tgs\<rparr>"

text \<open>
  A session in the middle of processing: a recording was started, one chunk and two ticks
  arrived, the recording was stopped, and \<^verbatim>\<open>processAudio\<close> has written \<^verbatim>\<open>TRANSCRIBING\<close>
  and waits for the service.
\<close>

definition busy_app :: App where
  "busy_app =
     setProcessingStatus TRANSCRIBING
       (stopTracks (stopRecording (tick (tick (ondataavailable (chunk [1, 2])
          (startRecording browser_ok initialApp))))))"

text \<open>A note of \<^verbatim>\<open>voznote-ai (1)/App.tsx\<close> whose tag, and nothing else, contains \<open>bill\<close>.\<close>

definition tagged_note :: NoteAudio where
  "tagged_note =
     \<lparr>id_note = ''1'', title = ''Weekly Sync'', date = ''01/11/2026'', durationFormatted = ''00:05'',
      transcription = '''', summary = '''', tags = [''billing''], audioUrl = None\<rparr>"

text \<open>
  Two sessions after \<^verbatim>\<open>stopRecording\<close>, before the recorder's stop event: one whose recorder
  delivered one chunk, one whose recorder delivered none.
\<close>

definition recorded_session :: App where
  "recorded_session =
     ondataavailable (chunk [1, 2]) (stopRecording (tick (tick (startRecording browser_ok initialApp))))"

definition empty_session :: App where
  "empty_session = stopRecording (tick (startRecording browser_ok initialApp))"

text \<open>A browser that refuses the microphone.\<close>

definition browser_denied :: Browser where
  "browser_denied = browser_ok\<lparr>getUserMedia := Inl (Error ''NotAllowedError'')\<rparr>"

section \<open>Properties\<close>

subsection \<open>Decimal rendering\<close>

lemma of_char_digit_char: "d < 10 \<Longrightarrow> of_char (digit_char d) = (48 + d :: nat)"
  by (simp add: digit_char_def)

lemma is_digit_digit_char: "d < 10 \<Longrightarrow> is_digit (digit_char d)"
  by (simp add: is_digit_def of_char_digit_char)

lemma toString_digits: "list_all is_digit (toString n)"
proof (induction n rule: toString.induct)
  case (1 n)
  show ?case
  proof (cases "n < 10")
    case True
    then show ?thesis by (simp add: toString.simps [of n] is_digit_digit_char)
  next
    case False
    with "1" show ?thesis by (simp add: toString.simps [of n] is_digit_digit_char)
  qed
qed

lemma decimal_snoc: "decimal (s @ [c]) = 10 * decimal s + (of_char c - 48)"
  by (simp add: decimal_def)

lemma decimal_toString: "decimal (toString n) = n"
proof (induction n rule: toString.induct)
  case (1 n)
  show ?case
  proof (cases "n < 10")
    case True
    then show ?thesis by (simp add: toString.simps [of n] decimal_def of_char_digit_char)
  next
    case False
    with "1" show ?thesis
      by (simp add: toString.simps [of n] decimal_snoc of_char_digit_char)
  qed
qed

lemma length_toString_small: "n < 10 \<Longrightarrow> length (toString n) = 1"
  by (simp add: toString.simps [of n])

lemma length_toString_two: "10 \<le> n \<Longrightarrow> n < 100 \<Longrightarrow> length (toString n) = 2"
  by (simp add: toString.simps [of n] length_toString_small)

lemma length_toString_pos: "0 < length (toString n)"
  by (simp add: toString.simps [of n])

lemma length_toString_big: "100 \<le> n \<Longrightarrow> 3 \<le> length (toString n)"
proof -
  assume h: "100 \<le> n"
  then have "10 \<le> n div 10" by simp
  then have "2 \<le> length (toString (n div 10))"
    using length_toString_pos [of "n div 10 div 10"]
    by (simp add: toString.simps [of "n div 10"] Suc_le_eq)
  with h show ?thesis by (simp add: toString.simps [of n])
qed

lemma decimal_zeros: "decimal (replicate k (CHR ''0'') @ s) = decimal s"
proof (induction k)
  case 0
  show ?case by simp
next
  case (Suc k)
  then show ?case by (simp add: decimal_def)
qed

lemma padStart_digits: "list_all is_digit s \<Longrightarrow> list_all is_digit (padStart 2 (CHR ''0'') s)"
  by (auto simp add: padStart_def is_digit_def list_all_iff)

lemma decimal_padStart: "decimal (padStart 2 (CHR ''0'') s) = decimal s"
  by (simp add: padStart_def decimal_zeros)

lemma length_padStart: "length (padStart 2 c s) = max 2 (length s)"
  by (simp add: padStart_def)

subsection \<open>Duration formatting\<close>

text \<open>
  Claim C9.  For every non-negative number of seconds \<open>s\<close>, \<^verbatim>\<open>formatTime\<close> yields a minutes
  field, a colon and a seconds field.  Both fields are decimal digits; the minutes field
  denotes \<open>s div 60\<close> and is padded with zeros to two characters, the seconds field denotes
  \<open>s mod 60\<close> and has exactly two characters.  From one hundred minutes on the minutes
  field is the plain numeral, three or more characters wide: nothing rolls over into hours,
  and 3600 seconds is \<open>60:00\<close>.
\<close>

theorem formatTime_fields:
  "(\<exists>m c. formatTime s = m @ '':'' @ c
      \<and> list_all is_digit m \<and> list_all is_digit c
      \<and> decimal m = s div 60 \<and> decimal c = s mod 60
      \<and> length c = 2
      \<and> length m = max 2 (length (toString (s div 60)))
      \<and> (100 \<le> s div 60 \<longrightarrow> m = toString (s div 60) \<and> 3 \<le> length m))
   \<and> formatTime 3600 = ''60:00''"
proof
  let ?m = "padStart 2 (CHR ''0'') (toString (s div 60))"
  let ?c = "padStart 2 (CHR ''0'') (toString (s mod 60))"
  have split: "formatTime s = ?m @ '':'' @ ?c"
    by (simp add: formatTime_def Let_def)
  have dm: "list_all is_digit ?m" and dc: "list_all is_digit ?c"
    by (simp_all add: padStart_digits toString_digits)
  have vm: "decimal ?m = s div 60" and vc: "decimal ?c = s mod 60"
    by (simp_all add: decimal_padStart decimal_toString)
  have "length (toString (s mod 60)) \<le> 2"
  proof (cases "s mod 60 < 10")
    case True
    then show ?thesis by (simp add: length_toString_small)
  next
    case False
    then show ?thesis by (simp add: length_toString_two)
  qed
  then have lc: "length ?c = 2"
    by (simp add: length_padStart)
  have lm: "length ?m = max 2 (length (toString (s div 60)))"
    by (rule length_padStart)
  have wide: "100 \<le> s div 60 \<longrightarrow> ?m = toString (s div 60) \<and> 3 \<le> length ?m"
  proof
    assume "100 \<le> s div 60"
    then have "3 \<le> length (toString (s div 60))" by (rule length_toString_big)
    then show "?m = toString (s div 60) \<and> 3 \<le> length ?m"
      by (simp add: padStart_def)
  qed
  from split dm dc vm vc lc lm wide
  show "\<exists>m c. formatTime s = m @ '':'' @ c
      \<and> list_all is_digit m \<and> list_all is_digit c
      \<and> decimal m = s div 60 \<and> decimal c = s mod 60
      \<and> length c = 2
      \<and> length m = max 2 (length (toString (s div 60)))
      \<and> (100 \<le> s div 60 \<longrightarrow> m = toString (s div 60) \<and> 3 \<le> length m)"
    by blast
next
  show "formatTime 3600 = ''60:00''"
    by code_simp
qed

theorem formatTime_fields_witness:
  "(100::nat) \<le> 6000 div 60 \<and>
   (\<exists>m c. formatTime 6000 = m @ '':'' @ c \<and> m = toString (6000 div 60) \<and> 3 \<le> length m
      \<and> decimal m = 100 \<and> decimal c = 0)"
  using formatTime_fields [of 6000] by auto

subsection \<open>The note store\<close>

lemma saveNote_update_present:
  "id_note a \<in> id_note ` set prev \<Longrightarrow>
   saveNote_update a prev = map (\<lambda>n. if id_note n = id_note a then a else n) prev"
proof -
  assume "id_note a \<in> id_note ` set prev"
  then have "find (\<lambda>n. id_note n = id_note a) prev \<noteq> None"
    by (auto simp add: find_None_iff)
  then show ?thesis
    by (auto simp add: saveNote_update_def split: option.splits)
qed

lemma saveNote_update_absent:
  "id_note a \<notin> id_note ` set prev \<Longrightarrow> saveNote_update a prev = a # prev"
proof -
  assume "id_note a \<notin> id_note ` set prev"
  then have "find (\<lambda>n. id_note n = id_note a) prev = None"
    by (force simp add: find_None_iff image_iff)
  then show ?thesis
    by (simp add: saveNote_update_def)
qed

lemma saveNote_update_ids:
  "id_note a \<in> id_note ` set (saveNote_update a prev)"
  by (cases "id_note a \<in> id_note ` set prev")
     (auto simp add: saveNote_update_present saveNote_update_absent image_iff)

lemma saveNote_update_idem:
  "saveNote_update a (saveNote_update a prev) = saveNote_update a prev"
proof (cases "id_note a \<in> id_note ` set prev")
  case True
  then have "saveNote_update a prev = map (\<lambda>n. if id_note n = id_note a then a else n) prev"
    by (rule saveNote_update_present)
  moreover have "saveNote_update a (saveNote_update a prev)
      = map (\<lambda>n. if id_note n = id_note a then a else n) (saveNote_update a prev)"
    by (rule saveNote_update_present) (rule saveNote_update_ids)
  ultimately show ?thesis by simp
next
  case False
  then have "saveNote_update a prev = a # prev"
    by (rule saveNote_update_absent)
  moreover have "saveNote_update a (a # prev)
      = map (\<lambda>n. if id_note n = id_note a then a else n) (a # prev)"
    by (rule saveNote_update_present) simp
  moreover from False have "map (\<lambda>n. if id_note n = id_note a then a else n) prev = prev"
    by (induction prev) auto
  ultimately show ?thesis by simp
qed

text \<open>
  Claim C4.  Saving the active note replaces, at every position of the store that holds its
  id, the stored note by the active one, and changes neither the other positions nor the
  length; when no stored note has the id, the active note is put in front.  Saving twice is
  saving once, and saving a fresh note \<open>a\<close> and then a fresh note \<open>b\<close> leaves \<open>b\<close> before
  \<open>a\<close>.
\<close>

theorem saveNote_insert_or_replace:
  assumes "activeNote s = Some a"
  shows "(id_note a \<in> id_note ` set (notes_st s) \<longrightarrow>
            length (notes_st (saveNote s)) = length (notes_st s) \<and>
            (\<forall>i < length (notes_st s).
               notes_st (saveNote s) ! i =
                 (if id_note (notes_st s ! i) = id_note a then a else notes_st s ! i)))
       \<and> (id_note a \<notin> id_note ` set (notes_st s) \<longrightarrow> notes_st (saveNote s) = a # notes_st s)
       \<and> saveNote (saveNote s) = saveNote s
       \<and> (\<forall>b. id_note a \<notin> id_note ` set (notes_st s) \<and> id_note b \<notin> id_note ` set (notes_st s)
              \<and> id_note b \<noteq> id_note a \<longrightarrow>
              notes_st (saveNote ((saveNote s)\<lparr>activeNote := Some b\<rparr>)) = b # a # notes_st s)"
proof (intro conjI)
  from assms have n: "notes_st (saveNote s) = saveNote_update a (notes_st s)"
    by (simp add: saveNote_def)
  show "id_note a \<in> id_note ` set (notes_st s) \<longrightarrow>
            length (notes_st (saveNote s)) = length (notes_st s) \<and>
            (\<forall>i < length (notes_st s).
               notes_st (saveNote s) ! i =
                 (if id_note (notes_st s ! i) = id_note a then a else notes_st s ! i))"
    by (simp add: n saveNote_update_present)
  show "id_note a \<notin> id_note ` set (notes_st s) \<longrightarrow> notes_st (saveNote s) = a # notes_st s"
    by (simp add: n saveNote_update_absent)
  from assms show "saveNote (saveNote s) = saveNote s"
    by (simp add: saveNote_def saveNote_update_idem)
  show "\<forall>b. id_note a \<notin> id_note ` set (notes_st s) \<and> id_note b \<notin> id_note ` set (notes_st s)
              \<and> id_note b \<noteq> id_note a \<longrightarrow>
              notes_st (saveNote ((saveNote s)\<lparr>activeNote := Some b\<rparr>)) = b # a # notes_st s"
  proof (intro allI impI)
    fix b :: Note
    assume h: "id_note a \<notin> id_note ` set (notes_st s) \<and> id_note b \<notin> id_note ` set (notes_st s)
              \<and> id_note b \<noteq> id_note a"
    then have "notes_st (saveNote s) = a # notes_st s"
      by (simp add: n saveNote_update_absent)
    moreover from h have "saveNote_update b (a # notes_st s) = b # a # notes_st s"
      by (intro saveNote_update_absent) auto
    ultimately show "notes_st (saveNote ((saveNote s)\<lparr>activeNote := Some b\<rparr>)) = b # a # notes_st s"
      by (simp add: saveNote_def)
  qed
qed

theorem saveNote_insert_or_replace_witness:
  "activeNote (initialApp\<lparr>notes_st := [example_note ''2'' ''Standup'' [], example_note ''1'' ''Weekly Sync'' []],
                          activeNote := Some (example_note ''1'' ''Renamed'' [''billing''])\<rparr>)
     = Some (example_note ''1'' ''Renamed'' [''billing''])
   \<and> notes_st (saveNote (initialApp\<lparr>notes_st := [example_note ''2'' ''Standup'' [], example_note ''1'' ''Weekly Sync'' []],
                          activeNote := Some (example_note ''1'' ''Renamed'' [''billing''])\<rparr>))
     = [example_note ''2'' ''Standup'' [], example_note ''1'' ''Renamed'' [''billing'']]
   \<and> notes_st (saveNote ((saveNote (initialApp\<lparr>activeNote := Some (example_note ''A'' ''first'' [])\<rparr>))
                           \<lparr>activeNote := Some (example_note ''B'' ''second'' [])\<rparr>))
     = [example_note ''B'' ''second'' [], example_note ''A'' ''first'' []]"
  using saveNote_insert_or_replace
          [of "initialApp\<lparr>notes_st := [example_note ''2'' ''Standup'' [], example_note ''1'' ''Weekly Sync'' []],
                          activeNote := Some (example_note ''1'' ''Renamed'' [''billing''])\<rparr>"
              "example_note ''1'' ''Renamed'' [''billing'']"]
        saveNote_insert_or_replace
          [of "initialApp\<lparr>activeNote := Some (example_note ''A'' ''first'' [])\<rparr>"
              "example_note ''A'' ''first'' []"]
  by (simp add: initialApp_def example_note_def saveNote_def saveNote_update_def)

subsection \<open>Chunk accumulation\<close>

lemma chunks_fold:
  "audioChunksRef (fold ondataavailable cs s) = audioChunksRef s @ filter (\<lambda>c. 0 < blob_size c) cs"
  by (induction cs arbitrary: s) (simp_all add: ondataavailable_def)

lemma mimeTypeRef_fold: "mimeTypeRef (fold ondataavailable cs s) = mimeTypeRef s"
  by (induction cs arbitrary: s) (simp_all add: ondataavailable_def)

lemma chunks_stopRecording: "audioChunksRef (stopRecording s) = audioChunksRef s"
  by (simp add: stopRecording_def clearInterval_def Let_def split: option.splits)

lemma chunks_stopRecording_v2: "audioChunksRef (stopRecording_v2 s) = audioChunksRef s"
  by (simp add: stopRecording_v2_def clearInterval_def Let_def split: option.splits)

lemma chunks_startRecording:
  "getUserMedia b = Inr () \<Longrightarrow> audioChunksRef (startRecording b s) = []"
  by (simp add: startRecording_def setInterval_def Let_def)

lemma chunks_startRecording_v2:
  "getUserMedia b = Inr () \<Longrightarrow> audioChunksRef (startRecording_v2 b s) = []"
  by (simp add: startRecording_v2_def setInterval_def Let_def)

lemma sum_nonempty: "sum_list (map blob_size (filter (\<lambda>c. 0 < blob_size c) cs)) = sum_list (map blob_size cs)"
  by (induction cs) simp_all

lemma size_new_Blob: "blob_size (new_Blob parts ty) = sum_list (map blob_size parts)"
  by (induction parts) (simp_all add: new_Blob_def blob_size_def)

text \<open>
  Claim C7.  Let the chunks \<open>cs1\<close> arrive between the start of a recording and the call of
  \<^verbatim>\<open>stopRecording\<close>, and the chunks \<open>cs2\<close> between that call and the stop event.  The blob
  built by the \<^verbatim>\<open>onstop\<close> handler holds the bytes of the non-empty chunks among them, in
  the order of arrival; its size is the sum of their sizes, which is the sum of all the
  sizes.  A chunk of size zero leaves the state as it is.  The same holds in the
  \<^verbatim>\<open>voznote-ai\<close> variant.
\<close>

theorem onstop_blob_concat:
  assumes "getUserMedia b = Inr ()"
  shows "blob_bytes (onstop_blob (fold ondataavailable cs2 (stopRecording
             (fold ondataavailable cs1 (startRecording b s)))))
           = concat (map blob_bytes (filter (\<lambda>c. 0 < blob_size c) (cs1 @ cs2)))
       \<and> blob_size (onstop_blob (fold ondataavailable cs2 (stopRecording
             (fold ondataavailable cs1 (startRecording b s)))))
           = sum_list (map blob_size (filter (\<lambda>c. 0 < blob_size c) (cs1 @ cs2)))
       \<and> blob_size (onstop_blob (fold ondataavailable cs2 (stopRecording
             (fold ondataavailable cs1 (startRecording b s)))))
           = sum_list (map blob_size (cs1 @ cs2))
       \<and> (blob_size c = 0 \<longrightarrow> ondataavailable c s' = s')
       \<and> blob_bytes (onstop_blob_v2 (fold ondataavailable cs2 (stopRecording_v2
             (fold ondataavailable cs1 (startRecording_v2 b s)))))
           = concat (map blob_bytes (filter (\<lambda>c. 0 < blob_size c) (cs1 @ cs2)))"
proof -
  let ?s = "fold ondataavailable cs2 (stopRecording (fold ondataavailable cs1 (startRecording b s)))"
  let ?v = "fold ondataavailable cs2 (stopRecording_v2 (fold ondataavailable cs1 (startRecording_v2 b s)))"
  from assms have c: "audioChunksRef ?s = filter (\<lambda>c. 0 < blob_size c) (cs1 @ cs2)"
    by (simp add: chunks_fold chunks_stopRecording chunks_startRecording)
  from assms have v: "audioChunksRef ?v = filter (\<lambda>c. 0 < blob_size c) (cs1 @ cs2)"
    by (simp add: chunks_fold chunks_stopRecording_v2 chunks_startRecording_v2)
  have 1: "blob_bytes (onstop_blob ?s) = concat (map blob_bytes (filter (\<lambda>c. 0 < blob_size c) (cs1 @ cs2)))"
    unfolding onstop_blob_def Let_def new_Blob_def c by simp
  have 2: "blob_size (onstop_blob ?s) = sum_list (map blob_size (filter (\<lambda>c. 0 < blob_size c) (cs1 @ cs2)))"
    unfolding onstop_blob_def Let_def size_new_Blob c by simp
  have 3: "blob_size (onstop_blob ?s) = sum_list (map blob_size (cs1 @ cs2))"
    unfolding 2 by (rule sum_nonempty)
  have 4: "blob_size c = 0 \<longrightarrow> ondataavailable c s' = s'"
    by (simp add: ondataavailable_def)
  have 5: "blob_bytes (onstop_blob_v2 ?v) = concat (map blob_bytes (filter (\<lambda>c. 0 < blob_size c) (cs1 @ cs2)))"
    unfolding onstop_blob_v2_def new_Blob_def v by simp
  from 1 2 3 4 5 show ?thesis by blast
qed

theorem onstop_blob_concat_witness:
  "getUserMedia browser_ok = Inr ()
   \<and> blob_size (chunk []) = 0
   \<and> blob_bytes (onstop_blob (fold ondataavailable [chunk [], chunk [7]] (stopRecording
        (fold ondataavailable [chunk [1, 2], chunk [], chunk [3]] (startRecording browser_ok initialApp)))))
       = [1, 2, 3, 7]
   \<and> blob_size (onstop_blob (fold ondataavailable [chunk [], chunk [7]] (stopRecording
        (fold ondataavailable [chunk [1, 2], chunk [], chunk [3]] (startRecording browser_ok initialApp)))))
       = 4
   \<and> ondataavailable (chunk []) initialApp = initialApp"
  using onstop_blob_concat
          [where b = browser_ok and ?cs1.0 = "[chunk [1, 2], chunk [], chunk [3]]"
             and ?cs2.0 = "[chunk [], chunk [7]]" and s = initialApp and c = "chunk []"
             and s' = initialApp]
  by (simp add: browser_ok_def chunk_def blob_size_def)

subsection \<open>Tags\<close>

lemma addTag_noop:
  "activeNote s = Some a \<Longrightarrow> trim ws t = [] \<or> trim ws t \<in> set (tags a) \<Longrightarrow>
   activeNote (addTag ws (s\<lparr>tagInput := t\<rparr>)) = Some a"
  by (auto simp add: addTag_def truthy_def Let_def)

lemma addTag_append:
  "activeNote s = Some a \<Longrightarrow> trim ws t \<noteq> [] \<Longrightarrow> trim ws t \<notin> set (tags a) \<Longrightarrow>
   activeNote (addTag ws (s\<lparr>tagInput := t\<rparr>)) = Some (a\<lparr>tags := tags a @ [trim ws t]\<rparr>)"
  by (simp add: addTag_def truthy_def Let_def)

lemma addTag_distinct:
  "activeNote s = Some a \<Longrightarrow> distinct (tags a) \<Longrightarrow>
   \<exists>a'. activeNote (addTag ws (s\<lparr>tagInput := t\<rparr>)) = Some a' \<and> distinct (tags a')"
proof (cases "trim ws t = [] \<or> trim ws t \<in> set (tags a)")
  case True
  assume "activeNote s = Some a" "distinct (tags a)"
  with True show ?thesis using addTag_noop [of s a ws t] by simp
next
  case False
  assume "activeNote s = Some a" "distinct (tags a)"
  with False show ?thesis using addTag_append [of s a ws t] by simp
qed

lemma addTag_many_distinct:
  "activeNote s = Some a \<Longrightarrow> distinct (tags a) \<Longrightarrow>
   \<exists>a'. activeNote (fold (\<lambda>t s. addTag ws (s\<lparr>tagInput := t\<rparr>)) ts s) = Some a' \<and> distinct (tags a')"
proof (induction ts arbitrary: s a)
  case Nil
  then show ?case by simp
next
  case (Cons t ts)
  from addTag_distinct [OF Cons.prems]
  obtain a1 where "activeNote (addTag ws (s\<lparr>tagInput := t\<rparr>)) = Some a1" "distinct (tags a1)"
    by blast
  from Cons.IH [OF this] show ?case by simp
qed

text \<open>
  Claim C8.  With an active note \<open>a\<close>, typing \<open>t\<close> into the tag field and calling \<^verbatim>\<open>addTag\<close>
  leaves the note as it is when the trimmed \<open>t\<close> is empty or already among the tags, and
  appends the trimmed \<open>t\<close> otherwise.  Adding \<open>x\<close> twice to a note without tags gives the tags
  \<open>[x]\<close>.  Tags without duplicates stay without duplicates under any sequence of additions.
\<close>

theorem addTag_no_duplicates:
  assumes "activeNote s = Some a"
  shows "(trim ws t = [] \<or> trim ws t \<in> set (tags a) \<longrightarrow>
            activeNote (addTag ws (s\<lparr>tagInput := t\<rparr>)) = Some a)
       \<and> (trim ws t \<noteq> [] \<and> trim ws t \<notin> set (tags a) \<longrightarrow>
            activeNote (addTag ws (s\<lparr>tagInput := t\<rparr>)) = Some (a\<lparr>tags := tags a @ [trim ws t]\<rparr>))
       \<and> (tags a = [] \<longrightarrow>
            map_option tags (activeNote (addTag ascii_ws
               ((addTag ascii_ws (s\<lparr>tagInput := ''x''\<rparr>))\<lparr>tagInput := ''x''\<rparr>))) = Some [''x''])
       \<and> (distinct (tags a) \<longrightarrow>
            (\<exists>a'. activeNote (fold (\<lambda>t s. addTag ws (s\<lparr>tagInput := t\<rparr>)) ts s) = Some a'
                 \<and> distinct (tags a')))"
proof (intro conjI impI)
  assume "trim ws t = [] \<or> trim ws t \<in> set (tags a)"
  with assms show "activeNote (addTag ws (s\<lparr>tagInput := t\<rparr>)) = Some a"
    by (rule addTag_noop)
next
  assume "trim ws t \<noteq> [] \<and> trim ws t \<notin> set (tags a)"
  with assms show "activeNote (addTag ws (s\<lparr>tagInput := t\<rparr>)) = Some (a\<lparr>tags := tags a @ [trim ws t]\<rparr>)"
    by (simp add: addTag_append)
next
  assume e: "tags a = []"
  have x: "trim ascii_ws ''x'' = ''x''"
    by (simp add: trim_def ascii_ws_def)
  from assms e have 1: "activeNote (addTag ascii_ws (s\<lparr>tagInput := ''x''\<rparr>)) = Some (a\<lparr>tags := [''x'']\<rparr>)"
    using addTag_append [of s a ascii_ws "''x''"] by (simp add: x)
  have "activeNote (addTag ascii_ws ((addTag ascii_ws (s\<lparr>tagInput := ''x''\<rparr>))\<lparr>tagInput := ''x''\<rparr>))
          = Some (a\<lparr>tags := [''x'']\<rparr>)"
    by (rule addTag_noop [OF 1]) (simp add: x)
  then show "map_option tags (activeNote (addTag ascii_ws
               ((addTag ascii_ws (s\<lparr>tagInput := ''x''\<rparr>))\<lparr>tagInput := ''x''\<rparr>))) = Some [''x'']"
    by simp
next
  assume "distinct (tags a)"
  with assms show "\<exists>a'. activeNote (fold (\<lambda>t s. addTag ws (s\<lparr>tagInput := t\<rparr>)) ts s) = Some a'
                 \<and> distinct (tags a')"
    by (rule addTag_many_distinct)
qed

theorem addTag_no_duplicates_witness:
  "activeNote (initialApp\<lparr>activeNote := Some (example_note ''1'' ''Weekly Sync'' [])\<rparr>)
     = Some (example_note ''1'' ''Weekly Sync'' [])
   \<and> trim ascii_ws ''  '' = []
   \<and> tags (example_note ''1'' ''Weekly Sync'' []) = []
   \<and> distinct (tags (example_note ''1'' ''Weekly Sync'' []))
   \<and> activeNote (addTag ascii_ws (initialApp\<lparr>activeNote := Some (example_note ''1'' ''Weekly Sync'' []),
                                              tagInput := ''  ''\<rparr>))
       = Some (example_note ''1'' ''Weekly Sync'' [])
   \<and> map_option tags (activeNote (addTag ascii_ws
        ((addTag ascii_ws (initialApp\<lparr>activeNote := Some (example_note ''1'' ''Weekly Sync'' []),
                                     tagInput := ''x''\<rparr>))\<lparr>tagInput := ''x''\<rparr>))) = Some [''x'']
   \<and> map_option tags (activeNote (addTag ascii_ws
        ((addTag ascii_ws (initialApp\<lparr>activeNote := Some (example_note ''1'' ''Weekly Sync'' []),
                                     tagInput := '' billing ''\<rparr>))\<lparr>tagInput := ''billing''\<rparr>)))
       = Some [''billing'']"
proof -
  let ?s = "initialApp\<lparr>activeNote := Some (example_note ''1'' ''Weekly Sync'' [])\<rparr>"
  have h: "activeNote ?s = Some (example_note ''1'' ''Weekly Sync'' [])"
    by simp
  have b: "trim ascii_ws '' billing '' = ''billing''" "trim ascii_ws ''billing'' = ''billing''"
          "trim ascii_ws ''  '' = []"
    by (simp_all add: trim_def ascii_ws_def)
  note t1 = addTag_no_duplicates [OF h, of ascii_ws "''  ''" "[]"]
  note t2 = addTag_no_duplicates [OF h, of ascii_ws "'' billing ''" "['' billing '', ''billing'']"]
  from t1 t2 b show ?thesis
    by (simp add: example_note_def addTag_def truthy_def Let_def)
qed

subsection \<open>Responses without text\<close>

lemma or_else_empty: "x = None \<or> x = Some '''' \<Longrightarrow> or_else x '''' = ''''"
  by (auto simp add: or_else_def truthy_def)

lemma transcribeAudio_key: "transcribeAudio env blob = Inr t \<Longrightarrow> key_present env"
  by (auto simp add: transcribeAudio_def transcribeAudio_try_def split: if_splits sum.splits)

lemma processAudio_success:
  assumes "transcribeAudio env blob = Inr t" and "summarizeText env t = Inr sm"
  shows "activeNote (processAudio env blob s)
           = Some (draftNote label_gravacao env s t sm)"
proof -
  from assms(1) have "key_present env" by (rule transcribeAudio_key)
  with assms show ?thesis
    by (simp add: processAudio_def processAudio_try_def setProcessingStatus_def Let_def draftNote_def)
qed

text \<open>
  Claim C10.  When the key is present, the audio was read and the service call returns a
  response whose text is undefined (or empty), \<^verbatim>\<open>transcribeAudio\<close> returns the empty string;
  so does \<^verbatim>\<open>summarizeText\<close>, and so do the two functions of \<^verbatim>\<open>geminiService.ts\<close>.  When both
  calls succeed, the draft note carries exactly the two returned strings.
\<close>

theorem no_text_gives_empty_string:
  "(key_present env \<and> blobToBase64 env blob = Inr d
      \<and> generateContent env [InlineData (or_else (Some (blob_type blob)) ''audio/webm'') d, TranscribePrompt] = Inr r
      \<and> (response_text r = None \<or> response_text r = Some '''')
      \<longrightarrow> transcribeAudio env blob = Inr '''' \<and> transcribeAudio_gemini env blob = Inr '''')
   \<and> (key_present env \<and> generateContent env [SummarizePrompt txt] = Inr r'
      \<and> (response_text r' = None \<or> response_text r' = Some '''')
      \<longrightarrow> summarizeText env txt = Inr '''' \<and> summarizeText_gemini env txt = Inr '''')
   \<and> (transcribeAudio env blob = Inr t \<and> summarizeText env t = Inr sm
      \<longrightarrow> (\<exists>n. activeNote (processAudio env blob s) = Some n
               \<and> transcription n = t \<and> summary n = sm \<and> tags n = []))"
proof (intro conjI impI)
  assume h: "key_present env \<and> blobToBase64 env blob = Inr d
      \<and> generateContent env [InlineData (or_else (Some (blob_type blob)) ''audio/webm'') d, TranscribePrompt] = Inr r
      \<and> (response_text r = None \<or> response_text r = Some '''')"
  then have e: "or_else (response_text r) '''' = ''''"
    by (simp add: or_else_empty)
  from h show "transcribeAudio env blob = Inr ''''"
    by (simp add: transcribeAudio_def transcribeAudio_try_def Let_def e)
  from h show "transcribeAudio_gemini env blob = Inr ''''"
    by (simp add: transcribeAudio_gemini_def e)
next
  assume h: "key_present env \<and> generateContent env [SummarizePrompt txt] = Inr r'
      \<and> (response_text r' = None \<or> response_text r' = Some '''')"
  then have e: "or_else (response_text r') '''' = ''''"
    by (simp add: or_else_empty)
  from h show "summarizeText env txt = Inr ''''"
    by (simp add: summarizeText_def summarizeText_try_def e)
  from h show "summarizeText_gemini env txt = Inr ''''"
    by (simp add: summarizeText_gemini_def e)
next
  assume "transcribeAudio env blob = Inr t \<and> summarizeText env t = Inr sm"
  then have "activeNote (processAudio env blob s) = Some (draftNote label_gravacao env s t sm)"
    by (simp add: processAudio_success)
  then show "\<exists>n. activeNote (processAudio env blob s) = Some n
               \<and> transcription n = t \<and> summary n = sm \<and> tags n = []"
    by (simp add: draftNote_def)
qed

theorem no_text_gives_empty_string_witness:
  "key_present env_no_text
   \<and> blobToBase64 env_no_text (chunk [1, 2]) = Inr (Some ''AAAA'')
   \<and> generateContent env_no_text [InlineData ''audio/webm'' (Some ''AAAA''), TranscribePrompt]
       = Inr \<lparr>response_text = None\<rparr>
   \<and> generateContent env_no_text [SummarizePrompt ''''] = Inr \<lparr>response_text = None\<rparr>
   \<and> transcribeAudio env_no_text (chunk [1, 2]) = Inr ''''
   \<and> transcribeAudio_gemini env_no_text (chunk [1, 2]) = Inr ''''
   \<and> summarizeText env_no_text '''' = Inr ''''
   \<and> summarizeText_gemini env_no_text '''' = Inr ''''
   \<and> (\<exists>n. activeNote (processAudio env_no_text (chunk [1, 2]) initialApp) = Some n
          \<and> transcription n = '''' \<and> summary n = '''' \<and> tags n = [])"
proof -
  have k: "key_present env_no_text"
    by (simp add: key_present_def env_no_text_def env_ok_def truthy_def)
  have b: "blobToBase64 env_no_text (chunk [1, 2]) = Inr (Some ''AAAA'')"
    by (simp add: blobToBase64_def env_no_text_def env_ok_def split_comma_1_def)
  have m: "or_else (Some (blob_type (chunk [1, 2]))) ''audio/webm'' = ''audio/webm''"
    by (simp add: or_else_def chunk_def truthy_def)
  have g: "generateContent env_no_text [InlineData ''audio/webm'' (Some ''AAAA''), TranscribePrompt]
             = Inr \<lparr>response_text = None\<rparr>"
          "generateContent env_no_text [SummarizePrompt ''''] = Inr \<lparr>response_text = None\<rparr>"
    by (simp_all add: env_no_text_def)
  from k b g m
       no_text_gives_empty_string
         [of env_no_text "chunk [1, 2]" "Some ''AAAA''" "\<lparr>response_text = None\<rparr>" "''''"
             "\<lparr>response_text = None\<rparr>" "''''" "''''" initialApp]
  show ?thesis
    by simp
qed

subsection \<open>Search\<close>

lemma take_eq_prefix: "(take (length q) l = q) = prefix q l"
proof
  assume "take (length q) l = q"
  then show "prefix q l" by (metis take_is_prefix)
next
  assume "prefix q l"
  then show "take (length q) l = q" by (auto simp add: prefix_def)
qed

lemma includes_str_sublist: "includes_str s q = sublist q s"
proof (induction s)
  case Nil
  show ?case by auto
next
  case (Cons c s)
  then show ?case
    by (simp only: includes_str.simps take_eq_prefix sublist_Cons_right)
qed

lemma includes_str_empty: "includes_str s []"
  by (simp add: includes_str_sublist)

lemma ascii_lower_examples:
  "ascii_lower ''BILL'' = ''bill''"
  "ascii_lower ''billing'' = ''billing''"
  "ascii_lower ''Weekly Sync'' = ''weekly sync''"
  "ascii_lower ''Standup'' = ''standup''"
  "ascii_lower [] = []"
  by code_simp+

text \<open>
  Claim C5, as amended.  In \<^verbatim>\<open>voznote-ai/App.tsx\<close> the search result is the store filtered,
  in store order, by: the lower-cased query occurs in the lower-cased title, in the
  lower-cased summary, or in some lower-cased tag.  In \<^verbatim>\<open>voznote-ai (1)/App.tsx\<close> only the
  title and the summary are looked at.  In both, the empty query returns the whole store.
\<close>

theorem filteredNotes_search:
  "filteredNotes lower q ns =
     filter (\<lambda>n. spec_contains_ci lower (title n) q \<or> spec_contains_ci lower (summary n) q \<or>
                 (\<exists>t \<in> set (tags n). spec_contains_ci lower t q)) ns
   \<and> filteredNotes_v3 lower q ms =
     filter (\<lambda>n. spec_contains_ci lower (title n) q \<or> spec_contains_ci lower (summary n) q) ms
   \<and> subseq (filteredNotes lower q ns) ns
   \<and> subseq (filteredNotes_v3 lower q ms) ms
   \<and> (lower [] = [] \<longrightarrow> filteredNotes lower [] ns = ns \<and> filteredNotes_v3 lower [] ms = ms)"
  by (simp add: filteredNotes_def filteredNotes_v3_def spec_contains_ci_def includes_str_sublist
        list_ex_iff)

theorem filteredNotes_search_witness:
  "ascii_lower [] = []
   \<and> filteredNotes ascii_lower ''''
        [example_note ''1'' ''Weekly Sync'' [''billing''], example_note ''2'' ''Standup'' []]
       = [example_note ''1'' ''Weekly Sync'' [''billing''], example_note ''2'' ''Standup'' []]
   \<and> filteredNotes ascii_lower ''BILL''
        [example_note ''1'' ''Weekly Sync'' [''billing''], example_note ''2'' ''Standup'' []]
       = [example_note ''1'' ''Weekly Sync'' [''billing'']]
   \<and> spec_contains_ci ascii_lower ''billing'' ''BILL''"
proof -
  have 1: "filteredNotes ascii_lower ''BILL''
        [example_note ''1'' ''Weekly Sync'' [''billing''], example_note ''2'' ''Standup'' []]
       = [example_note ''1'' ''Weekly Sync'' [''billing'']]"
    by (simp add: filteredNotes_def example_note_def ascii_lower_examples)
  have 2: "ascii_lower [] = []"
    by (simp add: ascii_lower_examples)
  have 3: "spec_contains_ci ascii_lower ''billing'' ''BILL''"
    by (simp add: spec_contains_ci_def includes_str_sublist [symmetric] ascii_lower_examples)
  from 2 filteredNotes_search
      [of ascii_lower "''''"
          "[example_note ''1'' ''Weekly Sync'' [''billing''], example_note ''2'' ''Standup'' []]"
          "[]"]
  have "filteredNotes ascii_lower ''''
        [example_note ''1'' ''Weekly Sync'' [''billing''], example_note ''2'' ''Standup'' []]
       = [example_note ''1'' ''Weekly Sync'' [''billing''], example_note ''2'' ''Standup'' []]"
    by blast
  with 1 2 3 show ?thesis by blast
qed

text \<open>
  Claim C5, as stated, fails in \<^verbatim>\<open>voznote-ai (1)/App.tsx\<close>: a note whose only match for
  \<open>BILL\<close> is its tag \<open>billing\<close> is not returned.
\<close>

theorem filteredNotes_v3_ignores_tags:
  "tags tagged_note = [''billing'']
   \<and> spec_contains_ci ascii_lower ''billing'' ''BILL''
   \<and> filteredNotes_v3 ascii_lower ''BILL'' [tagged_note] = []"
  by (simp add: filteredNotes_v3_def tagged_note_def spec_contains_ci_def
        includes_str_sublist [symmetric] ascii_lower_examples)

subsection \<open>Loading the store\<close>

lemma loadNotes_never_throws: "\<exists>s'. loadNotes parse saved s = Inr s'"
  by (simp add: loadNotes_def split: option.splits sum.splits)

lemma loadNotes_corrupt:
  "saved = None \<or> saved = Some '''' \<or> (\<exists>str e. saved = Some str \<and> parse str = Inl e) \<Longrightarrow>
   loadNotes parse saved s = Inr s"
  by (auto simp add: loadNotes_def truthy_def)

lemma loadNotes_v2_corrupt:
  "truthy str \<Longrightarrow> parse str = Inl e \<Longrightarrow> loadNotes_v2 parse (Some str) s = Inl e"
  by (simp add: loadNotes_v2_def)

text \<open>
  Claim C6 at a stored text that is not JSON.  The effect of \<^verbatim>\<open>src/App.tsx\<close> catches the
  exception of \<^verbatim>\<open>JSON.parse\<close> and keeps the empty store; the effect of the two
  \<^verbatim>\<open>voznote-ai\<close> variants lets it escape.
\<close>

theorem loadNotes_v2_throws:
  "loadNotes (\<lambda>str. Inl (Error ''SyntaxError'')) (Some ''{not json'') initialApp = Inr initialApp
   \<and> notes_st initialApp = []
   \<and> loadNotes_v2 (\<lambda>str. Inl (Error ''SyntaxError'')) (Some ''{not json'') initialApp
       = Inl (Error ''SyntaxError'')"
  by (simp add: loadNotes_def loadNotes_v2_def truthy_def initialApp_def)

subsection \<open>The status sequence\<close>

lemma processAudio_frame:
  "isRecording (processAudio env blob s) = isRecording s"
  "timerRef (processAudio env blob s) = timerRef s"
  "liveIntervals (processAudio env blob s) = liveIntervals s"
  "mediaRecorderRef (processAudio env blob s) = mediaRecorderRef s"
  "audioChunksRef (processAudio env blob s) = audioChunksRef s"
  "notes_st (processAudio env blob s) = notes_st s"
  "recordingDuration (processAudio env blob s) = recordingDuration s"
  by (simp_all add: processAudio_def processAudio_try_def processAudio_catch_def
        setProcessingStatus_def alert_def Let_def split: sum.splits prod.splits)

lemma processAudio_idle: "processingStatus (processAudio env blob s) = IDLE"
  by (simp add: processAudio_def setProcessingStatus_def Let_def)

lemma processAudio_trace_success:
  assumes "key_present env" "transcribeAudio env blob = Inr tr" "summarizeText env tr = Inr sm"
  shows "statusTrace (processAudio env blob s)
           = statusTrace s @ [TRANSCRIBING, SUMMARIZING, COMPLETED, IDLE]"
        "alerts (processAudio env blob s) = alerts s"
  using assms
  by (simp_all add: processAudio_def processAudio_try_def setProcessingStatus_def Let_def)

lemma processAudio_trace_no_key:
  assumes "\<not> key_present env"
  shows "statusTrace (processAudio env blob s) = statusTrace s @ [TRANSCRIBING, ERROR, IDLE]"
        "activeNote (processAudio env blob s) = activeNote s"
  using assms
  by (simp_all add: processAudio_def processAudio_try_def processAudio_catch_def
        setProcessingStatus_def alert_def Let_def)

lemma processAudio_trace_transcribe_fails:
  assumes "transcribeAudio env blob = Inl e"
  shows "statusTrace (processAudio env blob s) = statusTrace s @ [TRANSCRIBING, ERROR, IDLE]"
        "activeNote (processAudio env blob s) = activeNote s"
  using assms
  by (simp_all add: processAudio_def processAudio_try_def processAudio_catch_def
        setProcessingStatus_def alert_def Let_def)

lemma processAudio_trace_summarize_fails:
  assumes "key_present env" "transcribeAudio env blob = Inr tr" "summarizeText env tr = Inl e"
  shows "statusTrace (processAudio env blob s)
           = statusTrace s @ [TRANSCRIBING, SUMMARIZING, ERROR, IDLE]"
        "activeNote (processAudio env blob s) = activeNote s"
  using assms
  by (simp_all add: processAudio_def processAudio_try_def processAudio_catch_def
        setProcessingStatus_def alert_def Let_def)

lemma capture_keeps_status:
  "processingStatus (startRecording b s) = processingStatus s"
  "statusTrace (startRecording b s) = statusTrace s"
  "processingStatus (stopRecording s) = processingStatus s"
  "statusTrace (stopRecording s) = statusTrace s"
  "processingStatus (ondataavailable c s) = processingStatus s"
  "statusTrace (ondataavailable c s) = statusTrace s"
  by (simp_all add: startRecording_def stopRecording_def ondataavailable_def setInterval_def
        clearInterval_def alert_def Let_def split: sum.splits option.splits)

lemma processAudio_v2_frame:
  "isRecording (processAudio_v2 transcribe summarize env blob s) = isRecording s"
  "timerRef (processAudio_v2 transcribe summarize env blob s) = timerRef s"
  "liveIntervals (processAudio_v2 transcribe summarize env blob s) = liveIntervals s"
  "mediaRecorderRef (processAudio_v2 transcribe summarize env blob s) = mediaRecorderRef s"
  "audioChunksRef (processAudio_v2 transcribe summarize env blob s) = audioChunksRef s"
  "processingStatus (processAudio_v2 transcribe summarize env blob s) = IDLE"
  by (simp_all add: processAudio_v2_def setProcessingStatus_def alert_def Let_def
        split: sum.splits)

lemma processAudio_v2_trace:
  "transcribe blob = Inl e \<Longrightarrow>
     statusTrace (processAudio_v2 transcribe summarize env blob s)
       = statusTrace s @ [TRANSCRIBING, IDLE]"
  "transcribe blob = Inr tr \<Longrightarrow>
     statusTrace (processAudio_v2 transcribe summarize env blob s)
       = statusTrace s @ [TRANSCRIBING, SUMMARIZING, IDLE]"
  by (simp_all add: processAudio_v2_def setProcessingStatus_def alert_def Let_def
        split: sum.splits)

lemma processAudio_v2_success:
  "transcribe blob = Inr tr \<Longrightarrow> summarize tr = Inr sm \<Longrightarrow>
     activeNote (processAudio_v2 transcribe summarize env blob s)
       = Some (draftNote label_nota env s tr sm)
     \<and> alerts (processAudio_v2 transcribe summarize env blob s) = alerts s"
  by (simp add: processAudio_v2_def setProcessingStatus_def Let_def draftNote_def)

text \<open>
  Claim C1, as amended.  In \<^verbatim>\<open>src/App.tsx\<close>, whatever the services answer, \<^verbatim>\<open>processAudio\<close>
  appends one of three sequences to the record of status writes: \<^verbatim>\<open>TRANSCRIBING\<close>,
  \<^verbatim>\<open>SUMMARIZING\<close>, \<^verbatim>\<open>COMPLETED\<close>, \<^verbatim>\<open>IDLE\<close> exactly when both calls succeed; otherwise
  \<^verbatim>\<open>TRANSCRIBING\<close>, \<^verbatim>\<open>ERROR\<close>, \<^verbatim>\<open>IDLE\<close> or \<^verbatim>\<open>TRANSCRIBING\<close>, \<^verbatim>\<open>SUMMARIZING\<close>, \<^verbatim>\<open>ERROR\<close>,
  \<^verbatim>\<open>IDLE\<close>.  Starting from \<^verbatim>\<open>IDLE\<close>, every step of the sequence is one of idle to
  transcribing, transcribing to summarizing, summarizing to completed, transcribing or
  summarizing to error, completed or error to idle.  In \<^verbatim>\<open>voznote-ai/App.tsx\<close> the sequence
  is \<^verbatim>\<open>TRANSCRIBING\<close>, \<^verbatim>\<open>SUMMARIZING\<close>, \<^verbatim>\<open>IDLE\<close> when the transcription succeeds and
  \<^verbatim>\<open>TRANSCRIBING\<close>, \<^verbatim>\<open>IDLE\<close> when it fails.  In both the status is \<^verbatim>\<open>IDLE\<close> at the end.
  Starting and stopping a recording and receiving a chunk write no status: while
  capturing, the status stays what it was.
\<close>

theorem processAudio_status_machine:
  "(\<exists>t. statusTrace (processAudio env blob s) = statusTrace s @ t
       \<and> t \<in> {[TRANSCRIBING, SUMMARIZING, COMPLETED, IDLE],
               [TRANSCRIBING, ERROR, IDLE],
               [TRANSCRIBING, SUMMARIZING, ERROR, IDLE]}
       \<and> (t = [TRANSCRIBING, SUMMARIZING, COMPLETED, IDLE])
           = (\<exists>tr sm. transcribeAudio env blob = Inr tr \<and> summarizeText env tr = Inr sm)
       \<and> successively
            (\<lambda>a b. (a, b) \<in> {(IDLE, TRANSCRIBING), (TRANSCRIBING, SUMMARIZING),
                              (SUMMARIZING, COMPLETED), (COMPLETED, IDLE),
                              (TRANSCRIBING, ERROR), (SUMMARIZING, ERROR), (ERROR, IDLE)})
            (IDLE # t))
   \<and> processingStatus (processAudio env blob s) = IDLE
   \<and> (\<exists>t. statusTrace (processAudio_v2 transcribe summarize env blob s) = statusTrace s @ t
       \<and> t \<in> {[TRANSCRIBING, SUMMARIZING, IDLE], [TRANSCRIBING, IDLE]}
       \<and> (t = [TRANSCRIBING, SUMMARIZING, IDLE]) = (\<exists>tr. transcribe blob = Inr tr))
   \<and> processingStatus (processAudio_v2 transcribe summarize env blob s) = IDLE
   \<and> processingStatus (startRecording b s) = processingStatus s
   \<and> statusTrace (startRecording b s) = statusTrace s
   \<and> processingStatus (stopRecording s) = processingStatus s
   \<and> statusTrace (stopRecording s) = statusTrace s
   \<and> processingStatus (ondataavailable c s) = processingStatus s
   \<and> statusTrace (ondataavailable c s) = statusTrace s"
proof -
  let ?ok = "\<exists>tr sm. transcribeAudio env blob = Inr tr \<and> summarizeText env tr = Inr sm"
  let ?P = "\<lambda>t. statusTrace (processAudio env blob s) = statusTrace s @ t
       \<and> t \<in> {[TRANSCRIBING, SUMMARIZING, COMPLETED, IDLE],
               [TRANSCRIBING, ERROR, IDLE],
               [TRANSCRIBING, SUMMARIZING, ERROR, IDLE]}
       \<and> (t = [TRANSCRIBING, SUMMARIZING, COMPLETED, IDLE]) = ?ok
       \<and> successively
            (\<lambda>a b. (a, b) \<in> {(IDLE, TRANSCRIBING), (TRANSCRIBING, SUMMARIZING),
                              (SUMMARIZING, COMPLETED), (COMPLETED, IDLE),
                              (TRANSCRIBING, ERROR), (SUMMARIZING, ERROR), (ERROR, IDLE)})
            (IDLE # t)"
  let ?Q = "\<lambda>t. statusTrace (processAudio_v2 transcribe summarize env blob s) = statusTrace s @ t
       \<and> t \<in> {[TRANSCRIBING, SUMMARIZING, IDLE], [TRANSCRIBING, IDLE]}
       \<and> (t = [TRANSCRIBING, SUMMARIZING, IDLE]) = (\<exists>tr. transcribe blob = Inr tr)"
  have "\<exists>t. ?P t"
  proof (cases "transcribeAudio env blob")
    case (Inl e)
    then have "\<not> ?ok" by simp
    with processAudio_trace_transcribe_fails(1) [OF Inl, of s]
    have "?P [TRANSCRIBING, ERROR, IDLE]" by simp
    then show ?thesis ..
  next
    case (Inr tr)
    then have k: "key_present env" by (rule transcribeAudio_key)
    show ?thesis
    proof (cases "summarizeText env tr")
      case (Inl e)
      with Inr have "\<not> ?ok" by simp
      with processAudio_trace_summarize_fails(1) [OF k Inr Inl, of s]
      have "?P [TRANSCRIBING, SUMMARIZING, ERROR, IDLE]" by simp
      then show ?thesis ..
    next
      case sm: (Inr sm)
      with Inr have "?ok" by simp
      with processAudio_trace_success(1) [OF k Inr sm, of s]
      have "?P [TRANSCRIBING, SUMMARIZING, COMPLETED, IDLE]" by simp
      then show ?thesis ..
    qed
  qed
  moreover have "\<exists>t. ?Q t"
  proof (cases "transcribe blob")
    case (Inl e)
    from processAudio_v2_trace(1) [of transcribe blob, OF Inl, of summarize env s] Inl
    have "?Q [TRANSCRIBING, IDLE]" by simp
    then show ?thesis ..
  next
    case (Inr tr)
    from processAudio_v2_trace(2) [of transcribe blob, OF Inr, of summarize env s] Inr
    have "?Q [TRANSCRIBING, SUMMARIZING, IDLE]" by simp
    then show ?thesis ..
  qed
  ultimately show ?thesis
    by (simp only: processAudio_idle processAudio_v2_frame capture_keeps_status simp_thms)
qed

lemma env_ok_services:
  "key_present env_ok"
  "transcribeAudio env_ok blob = Inr ''hello world''"
  "summarizeText env_ok txt = Inr ''Summary: hello''"
  by (simp_all add: env_ok_def key_present_def truthy_def transcribeAudio_def
        transcribeAudio_try_def summarizeText_def summarizeText_try_def blobToBase64_def
        or_else_def Let_def)

lemma recorded_session_fields:
  "processingStatus recorded_session = IDLE"
  "statusTrace recorded_session = []"
  "audioChunksRef recorded_session = [chunk [1, 2]]"
  "mediaRecorderRef recorded_session
     = Some \<lparr>options_mimeType = Some ''audio/webm'', recording = False, tracks_live = True,
             onstop_set = True\<rparr>"
  by (simp_all add: recorded_session_def ondataavailable_def stopRecording_def tick_def
        startRecording_def setInterval_def clearInterval_def getSupportedMimeType_def
        mimeTypes_def browser_ok_def initialApp_def chunk_def blob_size_def truthy_def Let_def)

lemma empty_session_fields:
  "audioChunksRef empty_session = []"
  "alerts empty_session = []"
  "isRecording empty_session = False"
  "mediaRecorderRef empty_session
     = Some \<lparr>options_mimeType = Some ''audio/webm'', recording = False, tracks_live = True,
             onstop_set = True\<rparr>"
  by (simp_all add: empty_session_def stopRecording_def tick_def
        startRecording_def setInterval_def clearInterval_def getSupportedMimeType_def
        mimeTypes_def browser_ok_def initialApp_def truthy_def alert_def Let_def)

lemma stopTracks_frame:
  "statusTrace (stopTracks s) = statusTrace s"
  "alerts (stopTracks s) = alerts s"
  "processingStatus (stopTracks s) = processingStatus s"
  "audioChunksRef (stopTracks s) = audioChunksRef s"
  "isRecording (stopTracks s) = isRecording s"
  "timerRef (stopTracks s) = timerRef s"
  "liveIntervals (stopTracks s) = liveIntervals s"
  by (simp_all add: stopTracks_def)

text \<open>
  Claim C1, as stated, fails on a complete successful run.  In \<^verbatim>\<open>src/App.tsx\<close> the status
  is still \<^verbatim>\<open>IDLE\<close> after the recording, the writes that follow are \<^verbatim>\<open>TRANSCRIBING\<close>,
  \<^verbatim>\<open>SUMMARIZING\<close>, \<^verbatim>\<open>COMPLETED\<close>, \<^verbatim>\<open>IDLE\<close>, and the step from idle to transcribing is not
  a step of the specification's machine, which passes through a capturing status.  In
  \<^verbatim>\<open>voznote-ai/App.tsx\<close> the writes are \<^verbatim>\<open>TRANSCRIBING\<close>, \<^verbatim>\<open>SUMMARIZING\<close>, \<^verbatim>\<open>IDLE\<close>, and the
  step from summarizing to idle is not a step of that machine either.
\<close>

theorem status_never_capturing:
  "processingStatus recorded_session = IDLE
   \<and> statusTrace (stop_event env_ok recorded_session)
       = [TRANSCRIBING, SUMMARIZING, COMPLETED, IDLE]
   \<and> \<not> successively spec_step
          (map status_of (IDLE # statusTrace (stop_event env_ok recorded_session)))
   \<and> statusTrace (stop_event_v2 (transcribeAudio_gemini env_ok) (summarizeText_gemini env_ok)
                     env_ok recorded_session)
       = [TRANSCRIBING, SUMMARIZING, IDLE]
   \<and> \<not> spec_step (status_of SUMMARIZING) (status_of IDLE)"
proof -
  have "stop_event env_ok recorded_session
          = processAudio env_ok (onstop_blob recorded_session) (stopTracks recorded_session)"
    by (simp add: stop_event_def onstop_def recorded_session_fields Let_def)
  then have t: "statusTrace (stop_event env_ok recorded_session)
       = [TRANSCRIBING, SUMMARIZING, COMPLETED, IDLE]"
    by (simp add: processAudio_trace_success env_ok_services stopTracks_frame
          recorded_session_fields)
  have g: "transcribeAudio_gemini env_ok (onstop_blob_v2 recorded_session) = Inr ''hello world''"
    by (simp add: transcribeAudio_gemini_def env_ok_def blobToBase64_def or_else_def truthy_def)
  have "stop_event_v2 (transcribeAudio_gemini env_ok) (summarizeText_gemini env_ok) env_ok
          recorded_session
          = processAudio_v2 (transcribeAudio_gemini env_ok) (summarizeText_gemini env_ok) env_ok
              (onstop_blob_v2 recorded_session) (stopTracks recorded_session)"
    by (simp add: stop_event_v2_def onstop_v2_def recorded_session_fields Let_def)
  then have v: "statusTrace (stop_event_v2 (transcribeAudio_gemini env_ok)
                    (summarizeText_gemini env_ok) env_ok recorded_session)
       = [TRANSCRIBING, SUMMARIZING, IDLE]"
    by (simp add: processAudio_v2_trace(2)
                    [of "transcribeAudio_gemini env_ok" "onstop_blob_v2 recorded_session", OF g]
          stopTracks_frame recorded_session_fields)
  show ?thesis
    unfolding t v by (simp add: recorded_session_fields spec_step_def)
qed

subsection \<open>Stopping a recording\<close>

lemma stopRecording_fields:
  assumes "mediaRecorderRef s = Some r" and "isRecording s"
  shows "mediaRecorderRef (stopRecording s) = Some (r\<lparr>recording := False, onstop_set := True\<rparr>)"
        "isRecording (stopRecording s) = False"
        "mimeTypeRef (stopRecording s) = mimeTypeRef s"
        "alerts (stopRecording s) = alerts s"
        "timerRef s = Some t \<and> t \<noteq> 0 \<longrightarrow>
           timerRef (stopRecording s) = None \<and> t \<notin> set (liveIntervals (stopRecording s))"
  using assms
  by (simp_all add: stopRecording_def clearInterval_def Let_def split: option.splits)

lemma stop_event_after_stopRecording:
  assumes "mediaRecorderRef s = Some r" and "isRecording s"
  shows "stop_event env (stopRecording s)
           = processAudio env (onstop_blob (stopRecording s)) (stopTracks (stopRecording s))"
  using stopRecording_fields(1) [OF assms]
  by (simp add: stop_event_def onstop_def Let_def)

lemma onstop_blob_empty:
  "audioChunksRef s = [] \<Longrightarrow>
   onstop_blob s = \<lparr>blob_bytes = [], blob_type = or_else (Some (mimeTypeRef s)) ''audio/webm''\<rparr>"
  by (simp add: onstop_blob_def new_Blob_def Let_def)

lemma stop_flow_main:
  assumes "mediaRecorderRef s = Some r" and "isRecording s"
  shows "isRecording (stop_event env (stopRecording s)) = False
       \<and> mediaRecorderRef (stop_event env (stopRecording s))
           = Some (r\<lparr>recording := False, onstop_set := True, tracks_live := False\<rparr>)
       \<and> (timerRef s = Some t \<and> t \<noteq> 0 \<longrightarrow>
            timerRef (stop_event env (stopRecording s)) = None
            \<and> t \<notin> set (liveIntervals (stop_event env (stopRecording s))))
       \<and> processingStatus (stop_event env (stopRecording s)) = IDLE
       \<and> audioChunksRef (stop_event env (stopRecording s)) = audioChunksRef s
       \<and> (audioChunksRef s = [] \<longrightarrow>
            blob_size (onstop_blob (stopRecording s)) = 0
            \<and> stop_event env (stopRecording s)
                = processAudio env
                    \<lparr>blob_bytes = [], blob_type = or_else (Some (mimeTypeRef s)) ''audio/webm''\<rparr>
                    (stopTracks (stopRecording s)))
       \<and> (audioChunksRef s = []
            \<and> transcribeAudio env
                 \<lparr>blob_bytes = [], blob_type = or_else (Some (mimeTypeRef s)) ''audio/webm''\<rparr> = Inr tr
            \<and> summarizeText env tr = Inr sm \<longrightarrow>
            (\<exists>n. activeNote (stop_event env (stopRecording s)) = Some n
                 \<and> transcription n = tr \<and> summary n = sm)
            \<and> alerts (stop_event env (stopRecording s)) = alerts s)"
proof -
  note e = stop_event_after_stopRecording [OF assms, of env]
  note f = stopRecording_fields [OF assms]
  have 1: "isRecording (stop_event env (stopRecording s)) = False"
    by (simp add: e processAudio_frame stopTracks_frame f)
  have 2: "mediaRecorderRef (stop_event env (stopRecording s))
           = Some (r\<lparr>recording := False, onstop_set := True, tracks_live := False\<rparr>)"
    by (simp add: e processAudio_frame f stopTracks_def)
  have 3: "timerRef s = Some t \<and> t \<noteq> 0 \<longrightarrow>
            timerRef (stop_event env (stopRecording s)) = None
            \<and> t \<notin> set (liveIntervals (stop_event env (stopRecording s)))"
    using f(5) [of t] by (simp add: e processAudio_frame stopTracks_frame)
  have 4: "processingStatus (stop_event env (stopRecording s)) = IDLE"
    by (simp add: e processAudio_idle)
  have 5: "audioChunksRef (stop_event env (stopRecording s)) = audioChunksRef s"
    by (simp add: e processAudio_frame stopTracks_frame chunks_stopRecording)
  have b: "audioChunksRef s = [] \<longrightarrow> onstop_blob (stopRecording s)
             = \<lparr>blob_bytes = [], blob_type = or_else (Some (mimeTypeRef s)) ''audio/webm''\<rparr>"
    by (simp add: onstop_blob_empty chunks_stopRecording f)
  have 6: "audioChunksRef s = [] \<longrightarrow>
            blob_size (onstop_blob (stopRecording s)) = 0
            \<and> stop_event env (stopRecording s)
                = processAudio env
                    \<lparr>blob_bytes = [], blob_type = or_else (Some (mimeTypeRef s)) ''audio/webm''\<rparr>
                    (stopTracks (stopRecording s))"
    using b by (simp add: e blob_size_def)
  have 7: "audioChunksRef s = []
            \<and> transcribeAudio env
                 \<lparr>blob_bytes = [], blob_type = or_else (Some (mimeTypeRef s)) ''audio/webm''\<rparr> = Inr tr
            \<and> summarizeText env tr = Inr sm \<longrightarrow>
            (\<exists>n. activeNote (stop_event env (stopRecording s)) = Some n
                 \<and> transcription n = tr \<and> summary n = sm)
            \<and> alerts (stop_event env (stopRecording s)) = alerts s"
  proof
    assume h: "audioChunksRef s = []
            \<and> transcribeAudio env
                 \<lparr>blob_bytes = [], blob_type = or_else (Some (mimeTypeRef s)) ''audio/webm''\<rparr> = Inr tr
            \<and> summarizeText env tr = Inr sm"
    let ?b = "\<lparr>blob_bytes = [], blob_type = or_else (Some (mimeTypeRef s)) ''audio/webm''\<rparr>"
    from h 6 have s': "stop_event env (stopRecording s) = processAudio env ?b (stopTracks (stopRecording s))"
      by simp
    from h have tr: "transcribeAudio env ?b = Inr tr" and sm: "summarizeText env tr = Inr sm"
      by simp_all
    have k: "key_present env" using tr by (rule transcribeAudio_key)
    have "activeNote (stop_event env (stopRecording s))
            = Some (draftNote label_gravacao env (stopTracks (stopRecording s)) tr sm)"
      unfolding s' using tr sm by (rule processAudio_success)
    moreover have "alerts (stop_event env (stopRecording s)) = alerts s"
      unfolding s' by (simp add: processAudio_trace_success(2) [OF k tr sm] stopTracks_frame f)
    ultimately show "(\<exists>n. activeNote (stop_event env (stopRecording s)) = Some n
                 \<and> transcription n = tr \<and> summary n = sm)
            \<and> alerts (stop_event env (stopRecording s)) = alerts s"
      by (simp add: draftNote_def)
  qed
  from 1 2 3 4 5 6 7 show ?thesis by blast
qed
lemma stopRecording_v2_fields:
  assumes "mediaRecorderRef s = Some r" and "isRecording s"
  shows "mediaRecorderRef (stopRecording_v2 s) = Some (r\<lparr>recording := False, onstop_set := True\<rparr>)"
        "isRecording (stopRecording_v2 s) = False"
        "alerts (stopRecording_v2 s) = alerts s"
        "timerRef s = Some t \<and> t \<noteq> 0 \<longrightarrow> t \<notin> set (liveIntervals (stopRecording_v2 s))"
  using assms
  by (simp_all add: stopRecording_v2_def clearInterval_def Let_def split: option.splits)

lemma stop_event_v2_after_stopRecording_v2:
  assumes "mediaRecorderRef s = Some r" and "isRecording s"
  shows "stop_event_v2 transcribe summarize env (stopRecording_v2 s)
           = processAudio_v2 transcribe summarize env (onstop_blob_v2 (stopRecording_v2 s))
               (stopTracks (stopRecording_v2 s))"
  using stopRecording_v2_fields(1) [OF assms]
  by (simp add: stop_event_v2_def onstop_v2_def Let_def)

lemma stop_flow_v2:
  assumes "mediaRecorderRef s = Some r" and "isRecording s"
  shows "isRecording (stop_event_v2 transcribe summarize env (stopRecording_v2 s)) = False
       \<and> mediaRecorderRef (stop_event_v2 transcribe summarize env (stopRecording_v2 s))
           = Some (r\<lparr>recording := False, onstop_set := True, tracks_live := False\<rparr>)
       \<and> (timerRef s = Some t \<and> t \<noteq> 0 \<longrightarrow>
            t \<notin> set (liveIntervals (stop_event_v2 transcribe summarize env (stopRecording_v2 s))))
       \<and> processingStatus (stop_event_v2 transcribe summarize env (stopRecording_v2 s)) = IDLE
       \<and> (audioChunksRef s = []
            \<and> transcribe \<lparr>blob_bytes = [], blob_type = ''audio/webm''\<rparr> = Inr tr
            \<and> summarize tr = Inr sm \<longrightarrow>
            (\<exists>n. activeNote (stop_event_v2 transcribe summarize env (stopRecording_v2 s)) = Some n
                 \<and> transcription n = tr \<and> summary n = sm)
            \<and> alerts (stop_event_v2 transcribe summarize env (stopRecording_v2 s)) = alerts s)"
proof -
  note e = stop_event_v2_after_stopRecording_v2 [OF assms, of transcribe summarize env]
  note f = stopRecording_v2_fields [OF assms]
  have 1: "isRecording (stop_event_v2 transcribe summarize env (stopRecording_v2 s)) = False"
    by (simp add: e processAudio_v2_frame stopTracks_frame f)
  have 2: "mediaRecorderRef (stop_event_v2 transcribe summarize env (stopRecording_v2 s))
           = Some (r\<lparr>recording := False, onstop_set := True, tracks_live := False\<rparr>)"
    by (simp add: e processAudio_v2_frame f stopTracks_def)
  have 3: "timerRef s = Some t \<and> t \<noteq> 0 \<longrightarrow>
            t \<notin> set (liveIntervals (stop_event_v2 transcribe summarize env (stopRecording_v2 s)))"
    using f(4) [of t] by (simp add: e processAudio_v2_frame stopTracks_frame)
  have 4: "processingStatus (stop_event_v2 transcribe summarize env (stopRecording_v2 s)) = IDLE"
    by (simp add: e processAudio_v2_frame)
  have 5: "audioChunksRef s = []
            \<and> transcribe \<lparr>blob_bytes = [], blob_type = ''audio/webm''\<rparr> = Inr tr
            \<and> summarize tr = Inr sm \<longrightarrow>
            (\<exists>n. activeNote (stop_event_v2 transcribe summarize env (stopRecording_v2 s)) = Some n
                 \<and> transcription n = tr \<and> summary n = sm)
            \<and> alerts (stop_event_v2 transcribe summarize env (stopRecording_v2 s)) = alerts s"
  proof
    assume h: "audioChunksRef s = []
            \<and> transcribe \<lparr>blob_bytes = [], blob_type = ''audio/webm''\<rparr> = Inr tr
            \<and> summarize tr = Inr sm"
    then have b: "onstop_blob_v2 (stopRecording_v2 s) = \<lparr>blob_bytes = [], blob_type = ''audio/webm''\<rparr>"
      by (simp add: onstop_blob_v2_def new_Blob_def chunks_stopRecording_v2)
    from h have tr: "transcribe \<lparr>blob_bytes = [], blob_type = ''audio/webm''\<rparr> = Inr tr"
      and sm: "summarize tr = Inr sm"
      by simp_all
    from processAudio_v2_success
           [of transcribe "\<lparr>blob_bytes = [], blob_type = ''audio/webm''\<rparr>" tr summarize sm env
               "stopTracks (stopRecording_v2 s)", OF tr sm]
    show "(\<exists>n. activeNote (stop_event_v2 transcribe summarize env (stopRecording_v2 s)) = Some n
                 \<and> transcription n = tr \<and> summary n = sm)
            \<and> alerts (stop_event_v2 transcribe summarize env (stopRecording_v2 s)) = alerts s"
      by (simp add: e b draftNote_def stopTracks_frame f)
  qed
  from 1 2 3 4 5 show ?thesis by blast
qed

text \<open>
  Claim C2, as amended.  Let a recording be active.  After \<^verbatim>\<open>stopRecording\<close> and the
  recorder's stop event, the recording flag is off, the recorder is inactive and the tracks
  of its stream are stopped, a timer held in \<^verbatim>\<open>timerRef\<close> is cleared (and in \<^verbatim>\<open>src/App.tsx\<close>
  the ref is null), and the status is \<^verbatim>\<open>IDLE\<close>; in \<^verbatim>\<open>src/App.tsx\<close> the chunks stay in their
  ref.  With no chunk accumulated nothing fails at this point: the handler builds a blob of
  size zero and hands it to \<^verbatim>\<open>processAudio\<close>, and when the two service calls succeed on it, a
  draft note with their results becomes the active note and no alert is raised.  The first
  seven statements are about \<^verbatim>\<open>src/App.tsx\<close>, the last five about \<^verbatim>\<open>voznote-ai/App.tsx\<close>.
\<close>

theorem stop_with_no_chunks:
  assumes "mediaRecorderRef s = Some r" and "isRecording s"
  shows "(isRecording (stop_event env (stopRecording s)) = False
       \<and> mediaRecorderRef (stop_event env (stopRecording s))
           = Some (r\<lparr>recording := False, onstop_set := True, tracks_live := False\<rparr>)
       \<and> (timerRef s = Some t \<and> t \<noteq> 0 \<longrightarrow>
            timerRef (stop_event env (stopRecording s)) = None
            \<and> t \<notin> set (liveIntervals (stop_event env (stopRecording s))))
       \<and> processingStatus (stop_event env (stopRecording s)) = IDLE
       \<and> audioChunksRef (stop_event env (stopRecording s)) = audioChunksRef s
       \<and> (audioChunksRef s = [] \<longrightarrow>
            blob_size (onstop_blob (stopRecording s)) = 0
            \<and> stop_event env (stopRecording s)
                = processAudio env
                    \<lparr>blob_bytes = [], blob_type = or_else (Some (mimeTypeRef s)) ''audio/webm''\<rparr>
                    (stopTracks (stopRecording s)))
       \<and> (audioChunksRef s = []
            \<and> transcribeAudio env
                 \<lparr>blob_bytes = [], blob_type = or_else (Some (mimeTypeRef s)) ''audio/webm''\<rparr> = Inr tr
            \<and> summarizeText env tr = Inr sm \<longrightarrow>
            (\<exists>n. activeNote (stop_event env (stopRecording s)) = Some n
                 \<and> transcription n = tr \<and> summary n = sm)
            \<and> alerts (stop_event env (stopRecording s)) = alerts s))
       \<and> (isRecording (stop_event_v2 transcribe summarize env (stopRecording_v2 s)) = False
       \<and> mediaRecorderRef (stop_event_v2 transcribe summarize env (stopRecording_v2 s))
           = Some (r\<lparr>recording := False, onstop_set := True, tracks_live := False\<rparr>)
       \<and> (timerRef s = Some t \<and> t \<noteq> 0 \<longrightarrow>
            t \<notin> set (liveIntervals (stop_event_v2 transcribe summarize env (stopRecording_v2 s))))
       \<and> processingStatus (stop_event_v2 transcribe summarize env (stopRecording_v2 s)) = IDLE
       \<and> (audioChunksRef s = []
            \<and> transcribe \<lparr>blob_bytes = [], blob_type = ''audio/webm''\<rparr> = Inr tr
            \<and> summarize tr = Inr sm \<longrightarrow>
            (\<exists>n. activeNote (stop_event_v2 transcribe summarize env (stopRecording_v2 s)) = Some n
                 \<and> transcription n = tr \<and> summary n = sm)
            \<and> alerts (stop_event_v2 transcribe summarize env (stopRecording_v2 s)) = alerts s))"
proof (rule conjI)
  show "isRecording (stop_event env (stopRecording s)) = False
       \<and> mediaRecorderRef (stop_event env (stopRecording s))
           = Some (r\<lparr>recording := False, onstop_set := True, tracks_live := False\<rparr>)
       \<and> (timerRef s = Some t \<and> t \<noteq> 0 \<longrightarrow>
            timerRef (stop_event env (stopRecording s)) = None
            \<and> t \<notin> set (liveIntervals (stop_event env (stopRecording s))))
       \<and> processingStatus (stop_event env (stopRecording s)) = IDLE
       \<and> audioChunksRef (stop_event env (stopRecording s)) = audioChunksRef s
       \<and> (audioChunksRef s = [] \<longrightarrow>
            blob_size (onstop_blob (stopRecording s)) = 0
            \<and> stop_event env (stopRecording s)
                = processAudio env
                    \<lparr>blob_bytes = [], blob_type = or_else (Some (mimeTypeRef s)) ''audio/webm''\<rparr>
                    (stopTracks (stopRecording s)))
       \<and> (audioChunksRef s = []
            \<and> transcribeAudio env
                 \<lparr>blob_bytes = [], blob_type = or_else (Some (mimeTypeRef s)) ''audio/webm''\<rparr> = Inr tr
            \<and> summarizeText env tr = Inr sm \<longrightarrow>
            (\<exists>n. activeNote (stop_event env (stopRecording s)) = Some n
                 \<and> transcription n = tr \<and> summary n = sm)
            \<and> alerts (stop_event env (stopRecording s)) = alerts s)"
    using assms by (rule stop_flow_main)
next
  show "isRecording (stop_event_v2 transcribe summarize env (stopRecording_v2 s)) = False
       \<and> mediaRecorderRef (stop_event_v2 transcribe summarize env (stopRecording_v2 s))
           = Some (r\<lparr>recording := False, onstop_set := True, tracks_live := False\<rparr>)
       \<and> (timerRef s = Some t \<and> t \<noteq> 0 \<longrightarrow>
            t \<notin> set (liveIntervals (stop_event_v2 transcribe summarize env (stopRecording_v2 s))))
       \<and> processingStatus (stop_event_v2 transcribe summarize env (stopRecording_v2 s)) = IDLE
       \<and> (audioChunksRef s = []
            \<and> transcribe \<lparr>blob_bytes = [], blob_type = ''audio/webm''\<rparr> = Inr tr
            \<and> summarize tr = Inr sm \<longrightarrow>
            (\<exists>n. activeNote (stop_event_v2 transcribe summarize env (stopRecording_v2 s)) = Some n
                 \<and> transcription n = tr \<and> summary n = sm)
            \<and> alerts (stop_event_v2 transcribe summarize env (stopRecording_v2 s)) = alerts s)"
    using assms by (rule stop_flow_v2)
qed

lemma capturing_fields:
  "mediaRecorderRef (tick (startRecording browser_ok initialApp))
     = Some \<lparr>options_mimeType = Some ''audio/webm'', recording = True, tracks_live = True,
             onstop_set = False\<rparr>"
  "isRecording (tick (startRecording browser_ok initialApp))"
  "timerRef (tick (startRecording browser_ok initialApp)) = Some 1"
  "audioChunksRef (tick (startRecording browser_ok initialApp)) = []"
  "mimeTypeRef (tick (startRecording browser_ok initialApp)) = ''audio/webm''"
  "alerts (tick (startRecording browser_ok initialApp)) = []"
  by (simp_all add: tick_def startRecording_def setInterval_def getSupportedMimeType_def
        mimeTypes_def browser_ok_def initialApp_def truthy_def alert_def Let_def)

lemma env_ok_gemini:
  "transcribeAudio_gemini env_ok \<lparr>blob_bytes = [], blob_type = ''audio/webm''\<rparr>
     = Inr ''hello world''"
  "summarizeText_gemini env_ok ''hello world'' = Inr ''Summary: hello''"
  by (simp_all add: transcribeAudio_gemini_def summarizeText_gemini_def env_ok_def
        blobToBase64_def or_else_def truthy_def)

theorem stop_with_no_chunks_witness:
  "mediaRecorderRef (tick (startRecording browser_ok initialApp))
     = Some \<lparr>options_mimeType = Some ''audio/webm'', recording = True, tracks_live = True,
             onstop_set = False\<rparr>
   \<and> isRecording (tick (startRecording browser_ok initialApp))
   \<and> timerRef (tick (startRecording browser_ok initialApp)) = Some 1
   \<and> audioChunksRef (tick (startRecording browser_ok initialApp)) = []
   \<and> transcribeAudio env_ok \<lparr>blob_bytes = [], blob_type = ''audio/webm''\<rparr> = Inr ''hello world''
   \<and> summarizeText env_ok ''hello world'' = Inr ''Summary: hello''
   \<and> isRecording (stop_event env_ok empty_session) = False
   \<and> mediaRecorderRef (stop_event env_ok empty_session)
       = Some \<lparr>options_mimeType = Some ''audio/webm'', recording = False, tracks_live = False,
               onstop_set = True\<rparr>
   \<and> timerRef (stop_event env_ok empty_session) = None
   \<and> 1 \<notin> set (liveIntervals (stop_event env_ok empty_session))
   \<and> (\<exists>n. activeNote (stop_event env_ok empty_session) = Some n
          \<and> transcription n = ''hello world'' \<and> summary n = ''Summary: hello'')
   \<and> alerts (stop_event env_ok empty_session) = []
   \<and> transcribeAudio_gemini env_ok \<lparr>blob_bytes = [], blob_type = ''audio/webm''\<rparr>
       = Inr ''hello world''
   \<and> summarizeText_gemini env_ok ''hello world'' = Inr ''Summary: hello''
   \<and> (\<exists>n. activeNote (stop_event_v2 (transcribeAudio_gemini env_ok) (summarizeText_gemini env_ok)
                        env_ok (stopRecording_v2 (tick (startRecording browser_ok initialApp))))
            = Some n
          \<and> transcription n = ''hello world'' \<and> summary n = ''Summary: hello'')"
proof -
  let ?s = "tick (startRecording browser_ok initialApp)"
  let ?r = "\<lparr>options_mimeType = Some ''audio/webm'', recording = True, tracks_live = True,
             onstop_set = False\<rparr>"
  let ?s' = "stop_event env_ok (stopRecording ?s)"
  have tr: "transcribeAudio env_ok
              \<lparr>blob_bytes = [], blob_type = or_else (Some (mimeTypeRef ?s)) ''audio/webm''\<rparr>
              = Inr ''hello world''"
    by (rule env_ok_services(2))
  have sm: "summarizeText env_ok ''hello world'' = Inr ''Summary: hello''"
    by (rule env_ok_services(3))
  have one: "(1::nat) \<noteq> 0"
    by simp
  note t = stop_with_no_chunks
             [OF capturing_fields(1) capturing_fields(2),
              of env_ok 1 "''hello world''" "''Summary: hello''"
                 "transcribeAudio_gemini env_ok" "summarizeText_gemini env_ok"]
  from t have 1: "isRecording ?s' = False"
    by blast
  from t have 2: "mediaRecorderRef ?s'
                    = Some (?r\<lparr>recording := False, onstop_set := True, tracks_live := False\<rparr>)"
    by blast
  from t capturing_fields(3) one
  have 3: "timerRef ?s' = None \<and> 1 \<notin> set (liveIntervals ?s')"
    by blast
  from t capturing_fields(4) tr sm
  have 4: "(\<exists>n. activeNote ?s' = Some n
               \<and> transcription n = ''hello world'' \<and> summary n = ''Summary: hello'')
           \<and> alerts ?s' = alerts ?s"
    by blast
  from t capturing_fields(4) env_ok_gemini
  have 5: "\<exists>n. activeNote (stop_event_v2 (transcribeAudio_gemini env_ok)
                        (summarizeText_gemini env_ok) env_ok (stopRecording_v2 ?s)) = Some n
               \<and> transcription n = ''hello world'' \<and> summary n = ''Summary: hello''"
    by blast
  from 1 2 3 4 5 show ?thesis
    by (simp add: capturing_fields env_ok_services env_ok_gemini empty_session_def)
qed

text \<open>
  Claim C2, as stated, fails: a session stopped with no chunk at all, whose blob has size
  zero, ends with a draft note and without any alert when the services answer.
\<close>

theorem empty_capture_is_processed:
  "audioChunksRef empty_session = []
   \<and> blob_size (onstop_blob empty_session) = 0
   \<and> map_option transcription (activeNote (stop_event env_ok empty_session)) = Some ''hello world''
   \<and> alerts (stop_event env_ok empty_session) = []
   \<and> statusTrace (stop_event env_ok empty_session) = [TRANSCRIBING, SUMMARIZING, COMPLETED, IDLE]"
proof -
  have e: "stop_event env_ok empty_session
          = processAudio env_ok (onstop_blob empty_session) (stopTracks empty_session)"
    by (simp add: stop_event_def onstop_def empty_session_fields Let_def)
  have s: "statusTrace empty_session = []"
    by (simp add: empty_session_def capture_keeps_status tick_def alert_def Let_def initialApp_def)
  have 1: "blob_size (onstop_blob empty_session) = 0"
    by (simp add: onstop_blob_empty empty_session_fields blob_size_def)
  have 2: "map_option transcription (activeNote (stop_event env_ok empty_session)) = Some ''hello world''"
    unfolding e
    by (simp add: processAudio_success [OF env_ok_services(2) env_ok_services(3)] draftNote_def)
  have 3: "alerts (stop_event env_ok empty_session) = []"
    unfolding e
    by (simp add: processAudio_trace_success(2) [OF env_ok_services] stopTracks_frame
          empty_session_fields)
  have 4: "statusTrace (stop_event env_ok empty_session) = [TRANSCRIBING, SUMMARIZING, COMPLETED, IDLE]"
    unfolding e
    by (simp add: processAudio_trace_success(1) [OF env_ok_services] stopTracks_frame s)
  from 1 2 3 4 show ?thesis
    by (simp add: empty_session_fields)
qed

subsection \<open>Starting a recording\<close>

text \<open>
  Claim C3, as amended.  \<^verbatim>\<open>startRecording\<close> looks at no part of the state.  When the
  microphone is granted it empties the chunks, sets the duration to zero, raises the
  recording flag, installs a fresh recorder and a fresh timer and shows the recording view,
  whatever the status, which it leaves as it is together with the notes, the active note
  and the alerts.  When the microphone is refused it raises one alert and changes nothing
  else.  The \<^verbatim>\<open>voznote-ai\<close> variant does the same.
\<close>

theorem startRecording_unguarded:
  "(getUserMedia b = Inr () \<longrightarrow>
      audioChunksRef (startRecording b s) = []
      \<and> recordingDuration (startRecording b s) = 0
      \<and> isRecording (startRecording b s)
      \<and> view (startRecording b s) = RECORD
      \<and> mediaRecorderRef (startRecording b s)
          = Some \<lparr>options_mimeType =
                    (if truthy (getSupportedMimeType b) then Some (getSupportedMimeType b) else None),
                  recording = True, tracks_live = True, onstop_set = False\<rparr>
      \<and> timerRef (startRecording b s) = Some (nextTimerId s)
      \<and> liveIntervals (startRecording b s) = liveIntervals s @ [nextTimerId s]
      \<and> processingStatus (startRecording b s) = processingStatus s
      \<and> notes_st (startRecording b s) = notes_st s
      \<and> activeNote (startRecording b s) = activeNote s
      \<and> alerts (startRecording b s) = alerts s
      \<and> audioChunksRef (startRecording_v2 b s) = []
      \<and> recordingDuration (startRecording_v2 b s) = 0
      \<and> isRecording (startRecording_v2 b s)
      \<and> processingStatus (startRecording_v2 b s) = processingStatus s
      \<and> alerts (startRecording_v2 b s) = alerts s)
   \<and> (getUserMedia b = Inl e \<longrightarrow>
        startRecording b s = s\<lparr>alerts := alerts s @ [MicrophoneAlert]\<rparr>
        \<and> startRecording_v2 b s = s\<lparr>alerts := alerts s @ [PermissionAlert]\<rparr>)"
  by (simp add: startRecording_def startRecording_v2_def setInterval_def alert_def Let_def)

lemma busy_app_fields:
  "processingStatus busy_app = TRANSCRIBING"
  "audioChunksRef busy_app = [chunk [1, 2]]"
  "recordingDuration busy_app = 2"
  "isRecording busy_app = False"
  "alerts busy_app = []"
  by (simp_all add: busy_app_def setProcessingStatus_def stopTracks_def stopRecording_def
        tick_def ondataavailable_def startRecording_def setInterval_def clearInterval_def
        getSupportedMimeType_def mimeTypes_def browser_ok_def initialApp_def chunk_def
        blob_size_def truthy_def alert_def Let_def)

theorem startRecording_unguarded_witness:
  "getUserMedia browser_ok = Inr ()
   \<and> getUserMedia browser_denied = Inl (Error ''NotAllowedError'')
   \<and> processingStatus busy_app = TRANSCRIBING
   \<and> audioChunksRef (startRecording browser_ok busy_app) = []
   \<and> recordingDuration (startRecording browser_ok busy_app) = 0
   \<and> isRecording (startRecording browser_ok busy_app)
   \<and> processingStatus (startRecording browser_ok busy_app) = TRANSCRIBING
   \<and> startRecording browser_denied busy_app = busy_app\<lparr>alerts := [MicrophoneAlert]\<rparr>"
proof -
  have g: "getUserMedia browser_ok = Inr ()"
          "getUserMedia browser_denied = Inl (Error ''NotAllowedError'')"
    by (simp_all add: browser_ok_def browser_denied_def)
  from g startRecording_unguarded [of browser_ok busy_app "Error ''NotAllowedError''"]
       startRecording_unguarded [of browser_denied busy_app "Error ''NotAllowedError''"]
  show ?thesis
    by (simp add: busy_app_fields)
qed

text \<open>
  Claim C3, as stated, fails: in a session whose status is \<^verbatim>\<open>TRANSCRIBING\<close>, with one chunk
  and two seconds on the counter, \<^verbatim>\<open>startRecording\<close> raises no alert, empties the chunks and
  sets the counter to zero.
\<close>

theorem startRecording_while_busy:
  "processingStatus busy_app = TRANSCRIBING
   \<and> audioChunksRef busy_app = [chunk [1, 2]]
   \<and> recordingDuration busy_app = 2
   \<and> alerts (startRecording browser_ok busy_app) = alerts busy_app
   \<and> audioChunksRef (startRecording browser_ok busy_app) = []
   \<and> recordingDuration (startRecording browser_ok busy_app) = 0
   \<and> startRecording browser_ok busy_app \<noteq> busy_app"
proof -
  have c: "audioChunksRef (startRecording browser_ok busy_app) = []"
          "recordingDuration (startRecording browser_ok busy_app) = 0"
          "alerts (startRecording browser_ok busy_app) = alerts busy_app"
    by (simp_all add: startRecording_def setInterval_def browser_ok_def Let_def)
  have "recordingDuration (startRecording browser_ok busy_app) \<noteq> recordingDuration busy_app"
    by (simp add: c busy_app_fields)
  then have "startRecording browser_ok busy_app \<noteq> busy_app"
    by auto
  with c show ?thesis
    by (simp add: busy_app_fields)
qed

end
